theory Spec2Isabelle
  imports Complex_Main "HOL-Library.Word"
begin

section \<open>JavaScript values as they reach the program\<close>

text \<open>
  Every answer of the relay and of the paid API enters the program through
  \<^verbatim>\<open>await res.json()\<close> and is used untyped.  A value is therefore a JSON value, plus
  \<open>JUndefined\<close> for what reading a missing property gives.  Numbers are the integers
  (the program reads account roles and payload bytes); an object lists its own
  properties in the order in which the engine enumerates them, each key once.
\<close>

datatype json =
    JUndefined
  | JNull
  | JBool bool
  | JNum int
  | JStr string
  | JArr "json list"
  | JObj "(string \<times> json) list"

text \<open>
  What the program can throw: \<^verbatim>\<open>throw new Error(msg)\<close> of the source, the
  \<^verbatim>\<open>TypeError\<close> of the language (a property of \<^verbatim>\<open>null\<close>, a call of a
  non-function, a bad argument of \<^verbatim>\<open>Buffer.from\<close>), the error of an HTTP client for a
  response outside 2xx (it carries the status), and whatever a library or the network
  throws.
\<close>

datatype error =
    Error string
  | TypeError
  | HttpError nat
  | LibError string

type_synonym byte = "8 word"

datatype jsnum = NaN | Num int

subsection \<open>Operators of the language\<close>

text \<open>Truthiness, as tested by \<^verbatim>\<open>if (x)\<close>, \<^verbatim>\<open>!x\<close> and \<^verbatim>\<open>x || y\<close>.\<close>

fun js_truthy :: "json \<Rightarrow> bool" where
  "js_truthy JUndefined = False"
| "js_truthy JNull = False"
| "js_truthy (JBool b) = b"
| "js_truthy (JNum n) = (n \<noteq> 0)"
| "js_truthy (JStr s) = (s \<noteq> [])"
| "js_truthy (JArr xs) = True"
| "js_truthy (JObj kvs) = True"

definition js_or :: "json \<Rightarrow> json \<Rightarrow> json" where
  "js_or a b = (if js_truthy a then a else b)"

text \<open>
  \<^verbatim>\<open>x.f\<close> for a property name \<open>f\<close> that no built-in prototype defines (all names the
  program reads are such): a \<^verbatim>\<open>TypeError\<close> on \<^verbatim>\<open>undefined\<close> and \<^verbatim>\<open>null\<close>, the own
  property of an object, \<^verbatim>\<open>undefined\<close> otherwise.  \<^verbatim>\<open>x?.f\<close> gives \<^verbatim>\<open>undefined\<close>
  instead of throwing.
\<close>

fun js_get :: "json \<Rightarrow> string \<Rightarrow> error + json" where
  "js_get JUndefined f = Inl TypeError"
| "js_get JNull f = Inl TypeError"
| "js_get (JObj kvs) f = Inr (case map_of kvs f of Some v \<Rightarrow> v | None \<Rightarrow> JUndefined)"
| "js_get v f = Inr JUndefined"

definition js_get_opt :: "json \<Rightarrow> string \<Rightarrow> json" where
  "js_get_opt x f = (case js_get x f of Inl e \<Rightarrow> JUndefined | Inr v \<Rightarrow> v)"

text \<open>\<^verbatim>\<open>x?.[0]\<close>: the first element of an array, the first character of a string, the
  property \<^verbatim>\<open>"0"\<close> of an object.\<close>

fun js_first_opt :: "json \<Rightarrow> json" where
  "js_first_opt (JArr xs) = (case xs of [] \<Rightarrow> JUndefined | x # _ \<Rightarrow> x)"
| "js_first_opt (JStr s) = (case s of [] \<Rightarrow> JUndefined | c # _ \<Rightarrow> JStr [c])"
| "js_first_opt (JObj kvs) = (case map_of kvs ''0'' of Some v \<Rightarrow> v | None \<Rightarrow> JUndefined)"
| "js_first_opt v = JUndefined"

text \<open>The decimal text of an integer, as a template literal prints a number (numbers
  from \<^verbatim>\<open>1e21\<close> on, which are printed with an exponent, are not meant).\<close>

function decimal_onto :: "nat \<Rightarrow> string \<Rightarrow> string" where
  "decimal_onto n rest =
     (if n < 10 then char_of (48 + n) # rest
      else decimal_onto (n div 10) (char_of (48 + n mod 10) # rest))"
  by pat_completeness auto
termination
  by (relation "measure fst") auto

declare decimal_onto.simps [simp del]

definition Number_toString :: "int \<Rightarrow> string" where
  "Number_toString i =
     (if i < 0 then CHR ''-'' # decimal_onto (nat (- i)) [] else decimal_onto (nat i) [])"

fun join_with :: "string \<Rightarrow> string list \<Rightarrow> string" where
  "join_with sep [] = []"
| "join_with sep [x] = x"
| "join_with sep (x # y # ys) = x @ sep @ join_with sep (y # ys)"

text \<open>
  The string a template literal \<^verbatim>\<open>`${v}`\<close> inserts.  An array is its elements joined
  by commas, \<^verbatim>\<open>null\<close> and \<^verbatim>\<open>undefined\<close> elements as the empty string.
\<close>

fun js_toString :: "json \<Rightarrow> string" where
  "js_toString JUndefined = ''undefined''"
| "js_toString JNull = ''null''"
| "js_toString (JBool b) = (if b then ''true'' else ''false'')"
| "js_toString (JNum n) = Number_toString n"
| "js_toString (JStr s) = s"
| "js_toString (JArr xs) =
     join_with '','' (map (\<lambda>x. if x = JUndefined \<or> x = JNull then [] else js_toString x) xs)"
| "js_toString (JObj kvs) = ''[object Object]''"


subsection \<open>Built-ins used on the relay instruction\<close>

definition Array_isArray :: "json \<Rightarrow> bool" where
  "Array_isArray v = (case v of JArr xs \<Rightarrow> True | _ \<Rightarrow> False)"

text \<open>\<^verbatim>\<open>typeof v === "object"\<close> holds of objects, of arrays and of \<^verbatim>\<open>null\<close>.\<close>

definition typeof_object :: "json \<Rightarrow> bool" where
  "typeof_object v = (case v of JObj kvs \<Rightarrow> True | JArr xs \<Rightarrow> True | JNull \<Rightarrow> True | _ \<Rightarrow> False)"

text \<open>\<^verbatim>\<open>Object.values(v)\<close> throws a \<^verbatim>\<open>TypeError\<close> on \<^verbatim>\<open>null\<close> and \<^verbatim>\<open>undefined\<close>.\<close>

fun Object_values :: "json \<Rightarrow> error + json list" where
  "Object_values JUndefined = Inl TypeError"
| "Object_values JNull = Inl TypeError"
| "Object_values (JObj kvs) = Inr (map snd kvs)"
| "Object_values (JArr xs) = Inr xs"
| "Object_values (JStr s) = Inr (map (\<lambda>c. JStr [c]) s)"
| "Object_values v = Inr []"

section \<open>The ledger data and the outside world\<close>

text \<open>A public key is written as its base58 text (\<^verbatim>\<open>toBase58()\<close>).\<close>

type_synonym pubkey = string

record account_meta =
  pubkey :: pubkey
  isSigner :: bool
  isWritable :: bool

record instruction =
  keys :: "account_meta list"
  programId :: pubkey
  data :: "byte list"

text \<open>
  A \<^verbatim>\<open>Transaction\<close> after \<^verbatim>\<open>recentBlockhash\<close> and \<^verbatim>\<open>feePayer\<close> have been assigned:
  the anchor, the fee payer, the instructions in the order of the \<^verbatim>\<open>add\<close> calls, and
  the signatures attached so far.
\<close>

record transaction =
  recentBlockhash :: string
  feePayer :: pubkey
  instructions :: "instruction list"
  signatures :: "(pubkey \<times> string) list"

definition add :: "transaction \<Rightarrow> instruction \<Rightarrow> transaction" where
  "add t ix = t\<lparr>instructions := instructions t @ [ix]\<rparr>"

text \<open>The interface \<^verbatim>\<open>PaymentRequirements\<close> of the source.\<close>

record extra =
  extra_feePayer :: "string option"
  x402_tenant_id :: "string option"
  x402_service_url :: "string option"

record PaymentRequirements =
  network :: string
  payTo :: string
  asset :: string
  maxAmountRequired :: string
  extra :: "extra option"

text \<open>
  Everything the program calls and does not define is a parameter: the configuration,
  the wallet, the Solana libraries, the conversion of a string to a number, the
  network.  Each may throw.  \<open>fetch\<close> is \<^verbatim>\<open>fetch(url, init)\<close> followed by
  \<^verbatim>\<open>res.json()\<close>, with the request body before \<^verbatim>\<open>JSON.stringify\<close>;
  \<open>createTransferInstruction\<close> is called with no multi-signers and the token program,
  as the source does; \<open>serialize\<close> takes \<^verbatim>\<open>verifySignatures\<close>; \<open>partialSign\<close>
  gives the wallet's signature; \<open>Buffer_from_object\<close> is \<^verbatim>\<open>Buffer.from\<close> on an
  object that is not an array.
\<close>

record world =
  wallet :: pubkey
  X402_SERVICE_URL :: string
  UNREEL_API_URL :: string
  PublicKey :: "json \<Rightarrow> error + pubkey"
  Number :: "string \<Rightarrow> jsnum"
  fetch :: "string \<Rightarrow> json option \<Rightarrow> error + json"
  getAssociatedTokenAddress :: "pubkey \<Rightarrow> pubkey \<Rightarrow> error + pubkey"
  getLatestBlockhash :: "error + string"
  createTransferInstruction :: "pubkey \<Rightarrow> pubkey \<Rightarrow> pubkey \<Rightarrow> jsnum \<Rightarrow> error + instruction"
  partialSign :: "transaction \<Rightarrow> error + string"
  serialize :: "bool \<Rightarrow> transaction \<Rightarrow> error + string"
  Buffer_from_object :: "(string \<times> json) list \<Rightarrow> error + byte list"

subsection \<open>Buffers\<close>

text \<open>An element stored into a byte buffer: its number, truncated to eight bits;
  what is not a number is 0.\<close>

fun ToNumber :: "world \<Rightarrow> json \<Rightarrow> jsnum" where
  "ToNumber w JUndefined = NaN"
| "ToNumber w JNull = Num 0"
| "ToNumber w (JBool b) = Num (if b then 1 else 0)"
| "ToNumber w (JNum n) = Num n"
| "ToNumber w (JStr s) = Number w s"
| "ToNumber w (JArr xs) = Number w (js_toString (JArr xs))"
| "ToNumber w (JObj kvs) = NaN"

definition ToUint8 :: "world \<Rightarrow> json \<Rightarrow> byte" where
  "ToUint8 w v = (case ToNumber w v of NaN \<Rightarrow> 0 | Num n \<Rightarrow> word_of_int n)"

text \<open>\<^verbatim>\<open>Buffer.from(v)\<close>: the bytes of a string, the elements of an array, a
  \<^verbatim>\<open>TypeError\<close> on a number, a boolean, \<^verbatim>\<open>null\<close> and \<^verbatim>\<open>undefined\<close>.\<close>

fun Buffer_from :: "world \<Rightarrow> json \<Rightarrow> error + byte list" where
  "Buffer_from w (JStr s) = Inr (map of_char s)"
| "Buffer_from w (JArr xs) = Inr (map (ToUint8 w) xs)"
| "Buffer_from w (JObj kvs) = Buffer_from_object w kvs"
| "Buffer_from w v = Inl TypeError"

section \<open>Sequencing: a journal of the calls and a result\<close>

text \<open>
  The journal lists, in order, every request sent (with the answer parsed from it),
  every read of the latest blockhash and every transaction serialised.
\<close>

datatype event =
    Fetch string "json option" "error + json"
  | GetLatestBlockhash "error + string"
  | Serialize transaction "error + string"

type_synonym 'a io = "event list \<times> (error + 'a)"

definition ret :: "'a \<Rightarrow> 'a io" where
  "ret x = ([], Inr x)"

definition lift :: "error + 'a \<Rightarrow> 'a io" where
  "lift r = ([], r)"

definition andThen :: "'a io \<Rightarrow> ('a \<Rightarrow> 'b io) \<Rightarrow> 'b io" where
  "andThen m f =
     (case m of
        (t, Inl e) \<Rightarrow> (t, Inl e)
      | (t, Inr x) \<Rightarrow> (case f x of (t', r) \<Rightarrow> (t @ t', r)))"

definition do_fetch :: "world \<Rightarrow> string \<Rightarrow> json option \<Rightarrow> json io" where
  "do_fetch w url body = ([Fetch url body (fetch w url body)], fetch w url body)"

definition do_getLatestBlockhash :: "world \<Rightarrow> string io" where
  "do_getLatestBlockhash w = ([GetLatestBlockhash (getLatestBlockhash w)], getLatestBlockhash w)"

definition do_serialize :: "world \<Rightarrow> bool \<Rightarrow> transaction \<Rightarrow> string io" where
  "do_serialize w verify t = ([Serialize t (serialize w verify t)], serialize w verify t)"

fun mapM :: "('a \<Rightarrow> error + 'b) \<Rightarrow> 'a list \<Rightarrow> error + 'b list" where
  "mapM f [] = Inr []"
| "mapM f (x # xs) =
     (case f x of
        Inl e \<Rightarrow> Inl e
      | Inr y \<Rightarrow> (case mapM f xs of Inl e \<Rightarrow> Inl e | Inr ys \<Rightarrow> Inr (y # ys)))"


definition bindE :: "error + 'a \<Rightarrow> ('a \<Rightarrow> error + 'b) \<Rightarrow> error + 'b" where
  "bindE r f = (case r of Inl e \<Rightarrow> Inl e | Inr x \<Rightarrow> f x)"

section \<open>handlePayment\<close>

text \<open>The three addresses of the relay (lines 79, 111 and 176) and the body posted to
  the second (lines 114 to 118).\<close>

definition url_supported :: "world \<Rightarrow> string \<Rightarrow> string" where
  "url_supported w tenantId = X402_SERVICE_URL w @ ''/supported/'' @ tenantId"

definition url_payment_instruction :: "world \<Rightarrow> string \<Rightarrow> string" where
  "url_payment_instruction w tenantId = X402_SERVICE_URL w @ ''/payment-instruction/'' @ tenantId"

definition url_settle :: "world \<Rightarrow> string \<Rightarrow> string" where
  "url_settle w tenantId = X402_SERVICE_URL w @ ''/settle/'' @ tenantId"

definition payment_instruction_body :: "world \<Rightarrow> PaymentRequirements \<Rightarrow> string \<Rightarrow> json" where
  "payment_instruction_body w requirements baseTx =
     JObj [(''transaction'', JStr baseTx),
           (''feeToken'', JStr (asset requirements)),
           (''sourceWallet'', JStr (wallet w))]"

subsection \<open>Step 1: the fee payer advertised by the x402 service\<close>

text \<open>Lines 82 to 85 of \<^verbatim>\<open>src/index.ts\<close>: the first advertised fee payer,
  \<^verbatim>\<open>supportedInfo.kinds?.[0]?.extra?.feePayer\<close>, or the error when there is none.\<close>

definition supported_feePayer :: "json \<Rightarrow> error + json" where
  "supported_feePayer supportedInfo =
     bindE (js_get supportedInfo ''kinds'') (\<lambda>kinds.
       let feePayerAddress = js_get_opt (js_get_opt (js_first_opt kinds) ''extra'') ''feePayer'' in
       if \<not> js_truthy feePayerAddress
       then Inl (Error ''Failed to get fee payer from x402 service'')
       else Inr feePayerAddress)"

text \<open>Lines 79 to 86.\<close>

definition step1_feePayer :: "world \<Rightarrow> string \<Rightarrow> json io" where
  "step1_feePayer w tenantId =
     andThen (do_fetch w (url_supported w tenantId) None) (\<lambda>supportedInfo.
       lift (supported_feePayer supportedInfo))"

subsection \<open>Step 2: the base transfer transaction\<close>

text \<open>Lines 89 to 106.  The result keeps the two token accounts and the blockhash,
  which step 4 uses again.\<close>

definition step2_baseTransaction ::
  "world \<Rightarrow> pubkey \<Rightarrow> pubkey \<Rightarrow> jsnum \<Rightarrow> json \<Rightarrow> (pubkey \<times> pubkey \<times> string \<times> transaction) io" where
  "step2_baseTransaction w usdcMint payToKey amount feePayerAddress =
     andThen (lift (getAssociatedTokenAddress w usdcMint (wallet w))) (\<lambda>senderUsdcAccount.
     andThen (lift (getAssociatedTokenAddress w usdcMint payToKey)) (\<lambda>recipientUsdcAccount.
     andThen (do_getLatestBlockhash w) (\<lambda>blockhash.
     andThen (lift (PublicKey w feePayerAddress)) (\<lambda>sponsor.
     andThen (lift (createTransferInstruction w senderUsdcAccount recipientUsdcAccount
                      (wallet w) amount)) (\<lambda>transfer.
       ret (senderUsdcAccount, recipientUsdcAccount, blockhash,
            add \<lparr>recentBlockhash = blockhash, feePayer = sponsor,
                 instructions = [], signatures = []\<rparr> transfer))))))"

subsection \<open>Step 3: the payment instruction of the relay\<close>

text \<open>Lines 123 to 128: the answer of the relay is refused, or split into the
  instruction and the signer.  After \<^verbatim>\<open>paymentInstructionData.error\<close> has been read
  without a \<^verbatim>\<open>TypeError\<close>, the other two properties are read without one as well.\<close>

definition check_payment_instruction :: "json \<Rightarrow> error + json \<times> json" where
  "check_payment_instruction paymentInstructionData =
     bindE (js_get paymentInstructionData ''error'') (\<lambda>err.
       let paymentInstruction = js_get_opt paymentInstructionData ''payment_instruction'' in
       if js_truthy err \<or> \<not> js_truthy paymentInstruction
       then Inl (Error (''Failed to get payment instruction: '' @
                   js_toString (js_or err (JStr ''No instruction returned''))))
       else Inr (paymentInstruction, js_get_opt paymentInstructionData ''signer_address''))"

text \<open>Lines 109 to 129.\<close>

definition step3_paymentInstruction ::
  "world \<Rightarrow> PaymentRequirements \<Rightarrow> string \<Rightarrow> transaction \<Rightarrow> (json \<times> json) io" where
  "step3_paymentInstruction w requirements tenantId t =
     andThen (do_serialize w False t) (\<lambda>baseTx.
     andThen (do_fetch w (url_payment_instruction w tenantId)
                (Some (payment_instruction_body w requirements baseTx))) (\<lambda>paymentInstructionData.
       lift (check_payment_instruction paymentInstructionData)))"

subsection \<open>Step 4: the transaction rebuilt around the payment instruction\<close>

text \<open>Lines 149 to 158: the bytes of \<^verbatim>\<open>paymentInstruction.data\<close>.\<close>

definition dataBuffer :: "world \<Rightarrow> json \<Rightarrow> error + byte list" where
  "dataBuffer w d =
     (if Array_isArray d then Buffer_from w d
      else if js_truthy (js_get_opt d ''data'') then Buffer_from w (js_get_opt d ''data'')
      else if typeof_object d then bindE (Object_values d) (\<lambda>vs. Buffer_from w (JArr vs))
      else Buffer_from w (JArr []))"

text \<open>Lines 163 and 164: the two flags of an account, from its role.\<close>

definition role_isSigner :: "json \<Rightarrow> bool" where
  "role_isSigner role = (role = JNum 2 \<or> role = JNum 3)"

definition role_isWritable :: "json \<Rightarrow> bool" where
  "role_isWritable role = (role = JNum 1 \<or> role = JNum 3)"

text \<open>Lines 161 to 165: the function mapped over \<^verbatim>\<open>paymentInstruction.accounts\<close>.\<close>

definition accountMeta :: "world \<Rightarrow> json \<Rightarrow> error + account_meta" where
  "accountMeta w account =
     bindE (js_get account ''address'') (\<lambda>address.
     bindE (PublicKey w address) (\<lambda>pk.
       Inr \<lparr>pubkey = pk,
            isSigner = role_isSigner (js_get_opt account ''role''),
            isWritable = role_isWritable (js_get_opt account ''role'')\<rparr>))"

text \<open>Lines 160 to 168.  \<^verbatim>\<open>accounts.map\<close> is a \<^verbatim>\<open>TypeError\<close> unless \<^verbatim>\<open>accounts\<close> is
  an array.\<close>

definition koraInstruction :: "world \<Rightarrow> json \<Rightarrow> byte list \<Rightarrow> error + instruction" where
  "koraInstruction w paymentInstruction buf =
     bindE (js_get paymentInstruction ''accounts'') (\<lambda>accounts.
     bindE (case accounts of JArr accs \<Rightarrow> mapM (accountMeta w) accs | _ \<Rightarrow> Inl TypeError) (\<lambda>ks.
     bindE (PublicKey w (js_get_opt paymentInstruction ''programAddress'')) (\<lambda>pid.
       Inr \<lparr>keys = ks, programId = pid, data = buf\<rparr>)))"

text \<open>Lines 132 to 170.\<close>

definition step4_rebuild ::
  "world \<Rightarrow> string \<Rightarrow> json \<Rightarrow> pubkey \<Rightarrow> pubkey \<Rightarrow> jsnum \<Rightarrow> json \<Rightarrow> error + transaction" where
  "step4_rebuild w blockhash signerAddress senderUsdcAccount recipientUsdcAccount amount
       paymentInstruction =
     bindE (PublicKey w signerAddress) (\<lambda>signer.
     bindE (createTransferInstruction w senderUsdcAccount recipientUsdcAccount
              (wallet w) amount) (\<lambda>transfer.
     bindE (js_get paymentInstruction ''data'') (\<lambda>d.
     bindE (dataBuffer w d) (\<lambda>buf.
     bindE (koraInstruction w paymentInstruction buf) (\<lambda>kora.
       Inr (add (add \<lparr>recentBlockhash = blockhash, feePayer = signer,
                      instructions = [], signatures = []\<rparr> transfer) kora))))))"

subsection \<open>Step 5: sign and settle\<close>

text \<open>Lines 179 to 196: the body of the settlement request.\<close>

definition settle_body :: "world \<Rightarrow> PaymentRequirements \<Rightarrow> string \<Rightarrow> json \<Rightarrow> json" where
  "settle_body w requirements signedTx signerAddress =
     JObj [(''paymentPayload'',
            JObj [(''x402Version'', JNum 2),
                  (''scheme'', JStr ''exact''),
                  (''network'', JStr ''solana:5eykt4UsFv8P8NJdTREpY1vzqKqZKvdp''),
                  (''payload'', JObj [(''transaction'', JStr signedTx)])]),
           (''paymentRequirements'',
            JObj [(''x402Version'', JNum 2),
                  (''scheme'', JStr ''exact''),
                  (''network'', JStr ''solana:5eykt4UsFv8P8NJdTREpY1vzqKqZKvdp''),
                  (''maxAmountRequired'', JStr (maxAmountRequired requirements)),
                  (''resource'', JStr (UNREEL_API_URL w @ ''/api/generate-x402'')),
                  (''payTo'', JStr (payTo requirements)),
                  (''asset'', JStr (asset requirements)),
                  (''extra'', JObj [(''feePayer'', signerAddress)])])]"

text \<open>Lines 201 to 206: the answer to the settlement request is refused, or gives the
  identifier of the settled transaction.  After \<^verbatim>\<open>settleData.success\<close> has been
  read without a \<^verbatim>\<open>TypeError\<close>, so are the other properties.\<close>

definition check_settlement :: "json \<Rightarrow> error + json" where
  "check_settlement settleData =
     bindE (js_get settleData ''success'') (\<lambda>success.
       if \<not> js_truthy success
       then Inl (Error (''Settlement failed: '' @
                   js_toString (js_or (js_get_opt settleData ''errorReason'')
                                 (js_or (js_get_opt settleData ''error'')
                                    (JStr ''Unknown error'')))))
       else Inr (js_get_opt settleData ''transaction''))"

text \<open>Lines 173 to 206.\<close>

definition step5_settle ::
  "world \<Rightarrow> PaymentRequirements \<Rightarrow> string \<Rightarrow> transaction \<Rightarrow> json \<Rightarrow> json io" where
  "step5_settle w requirements tenantId t signerAddress =
     andThen (lift (partialSign w t)) (\<lambda>sig.
     andThen (do_serialize w True (t\<lparr>signatures := [(wallet w, sig)]\<rparr>)) (\<lambda>signedTx.
     andThen (do_fetch w (url_settle w tenantId)
                (Some (settle_body w requirements signedTx signerAddress))) (\<lambda>settleData.
       lift (check_settlement settleData))))"

subsection \<open>The whole function\<close>

text \<open>Line 70: \<^verbatim>\<open>requirements.extra?.x402_tenant_id || "unreel-ai"\<close>.\<close>

definition tenantId_of :: "PaymentRequirements \<Rightarrow> string" where
  "tenantId_of requirements =
     (case extra requirements of
        None \<Rightarrow> ''unreel-ai''
      | Some ex \<Rightarrow>
          (case x402_tenant_id ex of
             None \<Rightarrow> ''unreel-ai''
           | Some t \<Rightarrow> if t = [] then ''unreel-ai'' else t))"

definition handlePayment :: "world \<Rightarrow> PaymentRequirements \<Rightarrow> json io" where
  "handlePayment w requirements =
     andThen (lift (PublicKey w (JStr (payTo requirements)))) (\<lambda>payToKey.
     andThen (lift (PublicKey w (JStr (asset requirements)))) (\<lambda>usdcMint.
     andThen (step1_feePayer w (tenantId_of requirements)) (\<lambda>feePayerAddress.
     andThen (step2_baseTransaction w usdcMint payToKey
                (Number w (maxAmountRequired requirements)) feePayerAddress)
       (\<lambda>(senderUsdcAccount, recipientUsdcAccount, blockhash, t).
     andThen (step3_paymentInstruction w requirements (tenantId_of requirements) t)
       (\<lambda>(paymentInstruction, signerAddress).
     andThen (lift (step4_rebuild w blockhash signerAddress senderUsdcAccount
                      recipientUsdcAccount (Number w (maxAmountRequired requirements))
                      paymentInstruction)) (\<lambda>t'.
       step5_settle w requirements (tenantId_of requirements) t' signerAddress))))))"


section \<open>pollJobStatus\<close>

text \<open>
  What one \<^verbatim>\<open>GET /api/jobs/<id>\<close> gives: the HTTP status and the body, as the value
  it parses to when it is JSON and as text otherwise.  The job service is a function
  from the number of the attempt to the response, or to the error of the network.
\<close>

record response =
  status :: nat
  body :: "string + json"

type_synonym job_service = "nat \<Rightarrow> error + response"

text \<open>
  A delay is a double, hence a real number.  \<^verbatim>\<open>delay * 1.2\<close> is the product as
  the machine computes it, rounded to a double: the multiplication is a parameter of
  the pollers.  \<^verbatim>\<open>Math.min\<close> does not round.
\<close>

type_synonym product = "real \<Rightarrow> real \<Rightarrow> real"

definition exact_product :: product where
  "exact_product x y = x * y"

text \<open>\<^verbatim>\<open>await res.json()\<close> of \<^verbatim>\<open>fetch\<close>: the status is not looked at.\<close>

definition res_json :: "response \<Rightarrow> error + json" where
  "res_json res = (case body res of Inl s \<Rightarrow> Inl (LibError ''SyntaxError'') | Inr j \<Rightarrow> Inr j)"

text \<open>\<^verbatim>\<open>await api.get(url)\<close> of axios, then \<^verbatim>\<open>response.data\<close>: a status outside 2xx is
  thrown as an error carrying the response; a body that is not JSON is kept as text.\<close>

definition axios_data :: "response \<Rightarrow> error + json" where
  "axios_data res =
     (if 200 \<le> status res \<and> status res < 300
      then Inr (case body res of Inl s \<Rightarrow> JStr s | Inr j \<Rightarrow> j)
      else Inl (HttpError (status res)))"

subsection \<open>The poller of \<^verbatim>\<open>src/index.ts\<close> (lines 266 to 286)\<close>

text \<open>The result comes with the delays slept, in order.\<close>

function pollJobStatus_loop ::
  "product \<Rightarrow> job_service \<Rightarrow> nat \<Rightarrow> nat \<Rightarrow> real \<Rightarrow> real list \<times> (error + json)" where
  "pollJobStatus_loop fmul srv maxAttempts attempt delay =
     (if attempt < maxAttempts then
        (case bindE (srv attempt) res_json of
           Inl e \<Rightarrow> ([], Inl e)
         | Inr job \<Rightarrow>
            (case js_get job ''status'' of
               Inl e \<Rightarrow> ([], Inl e)
             | Inr st \<Rightarrow>
                if st = JStr ''completed'' then ([], Inr job)
                else if st = JStr ''failed'' then
                  ([], Inl (Error (''Job failed: '' @
                      js_toString (js_or (js_get_opt job ''error'') (JStr ''Unknown error'')))))
                else
                  (case pollJobStatus_loop fmul srv maxAttempts (attempt + 1)
                          (min (fmul delay 1.2) 30000) of
                     (ds, r) \<Rightarrow> (delay # ds, r))))
      else ([], Inl (Error (''Job timed out after '' @ Number_toString (int maxAttempts) @
                            '' attempts''))))"
  by pat_completeness auto
termination
  by (relation "measure (\<lambda>(fmul, srv, maxAttempts, attempt, delay). maxAttempts - attempt)")
     auto

declare pollJobStatus_loop.simps [simp del]

definition pollJobStatus ::
  "product \<Rightarrow> job_service \<Rightarrow> string \<Rightarrow> nat \<Rightarrow> real \<Rightarrow> real list \<times> (error + json)" where
  "pollJobStatus fmul srv jobId maxAttempts initialDelay =
     pollJobStatus_loop fmul srv maxAttempts 0 initialDelay"

subsection \<open>The poller of the axios client (lines 59 to 92 of \<^verbatim>\<open>part_000\<close>)\<close>

text \<open>The \<^verbatim>\<open>catch\<close> block, lines 83 to 88.\<close>

definition poll_catch :: "string \<Rightarrow> error \<Rightarrow> error" where
  "poll_catch jobId e = (if e = HttpError 404 then Error (''Job not found: '' @ jobId) else e)"

function pollJobStatus_axios_loop ::
  "product \<Rightarrow> job_service \<Rightarrow> string \<Rightarrow> nat \<Rightarrow> nat \<Rightarrow> real \<Rightarrow>
     real list \<times> (error + json)" where
  "pollJobStatus_axios_loop fmul srv jobId maxAttempts attempt delay =
     (if attempt < maxAttempts then
        (case bindE (srv attempt) axios_data of
           Inl e \<Rightarrow> ([], Inl (poll_catch jobId e))
         | Inr dat \<Rightarrow>
            (case js_get dat ''status'' of
               Inl e \<Rightarrow> ([], Inl (poll_catch jobId e))
             | Inr st \<Rightarrow>
                if st = JStr ''completed'' then ([], Inr dat)
                else if st = JStr ''failed'' then
                  ([], Inl (poll_catch jobId (Error (''Job failed: '' @
                      js_toString (js_or (js_get_opt dat ''error'') (JStr ''Unknown error''))))))
                else
                  (case pollJobStatus_axios_loop fmul srv jobId maxAttempts (attempt + 1)
                          (min (fmul delay 1.2) 30000) of
                     (ds, r) \<Rightarrow> (delay # ds, r))))
      else ([], Inl (Error (''Job timed out after '' @ Number_toString (int maxAttempts) @
                            '' attempts''))))"
  by pat_completeness auto
termination
  by (relation
        "measure (\<lambda>(fmul, srv, jobId, maxAttempts, attempt, delay). maxAttempts - attempt)")
     auto

declare pollJobStatus_axios_loop.simps [simp del]

definition pollJobStatus_axios ::
  "product \<Rightarrow> job_service \<Rightarrow> string \<Rightarrow> nat \<Rightarrow> real \<Rightarrow> real list \<times> (error + json)" where
  "pollJobStatus_axios fmul srv jobId maxAttempts initialDelay =
     pollJobStatus_axios_loop fmul srv jobId maxAttempts 0 initialDelay"

section \<open>Reading a journal\<close>

text \<open>The requests sent to one address, each with its body and its answer; the
  transactions serialised; a path of properties read with \<^verbatim>\<open>?.\<close>.\<close>

definition calls_to :: "string \<Rightarrow> event list \<Rightarrow> (json option \<times> (error + json)) list" where
  "calls_to u tr =
     concat (map (\<lambda>e. case e of Fetch u' b r \<Rightarrow> (if u' = u then [(b, r)] else []) | _ \<Rightarrow> []) tr)"

definition drafts :: "event list \<Rightarrow> transaction list" where
  "drafts tr = concat (map (\<lambda>e. case e of Serialize t r \<Rightarrow> [t] | _ \<Rightarrow> []) tr)"

fun js_path :: "json \<Rightarrow> string list \<Rightarrow> json" where
  "js_path v [] = v"
| "js_path v (f # fs) = js_path (js_get_opt v f) fs"

text \<open>An answer of the job service that keeps a poller waiting: it is read without an
  error and its status is neither \<^verbatim>\<open>completed\<close> nor \<^verbatim>\<open>failed\<close>.\<close>

definition fetch_pending :: "error + response \<Rightarrow> bool" where
  "fetch_pending x =
     (case bindE x res_json of
        Inl e \<Rightarrow> False
      | Inr job \<Rightarrow>
          (case js_get job ''status'' of
             Inl e \<Rightarrow> False
           | Inr st \<Rightarrow> st \<noteq> JStr ''completed'' \<and> st \<noteq> JStr ''failed''))"

definition axios_pending :: "error + response \<Rightarrow> bool" where
  "axios_pending x =
     (case bindE x axios_data of
        Inl e \<Rightarrow> False
      | Inr dat \<Rightarrow>
          (case js_get dat ''status'' of
             Inl e \<Rightarrow> False
           | Inr st \<Rightarrow> st \<noteq> JStr ''completed'' \<and> st \<noteq> JStr ''failed''))"

section \<open>A sample world\<close>

text \<open>
  A relay that advertises the sponsor \<open>SponsorA\<close>, answers the instruction request and
  the settlement request as given, and libraries that accept every non-empty address
  without blanks.  The transfer instruction has the layout of the token program: three
  accounts, the tag 3 and the amount in eight little-endian bytes.
\<close>

definition sample_PublicKey :: "json \<Rightarrow> error + pubkey" where
  "sample_PublicKey v =
     (case v of
        JStr s \<Rightarrow> if s = [] \<or> CHR '' '' \<in> set s
                  then Inl (LibError ''Invalid public key input'') else Inr s
      | _ \<Rightarrow> Inl (LibError ''Invalid public key input''))"

definition sample_Number :: "string \<Rightarrow> jsnum" where
  "sample_Number s = (if s = ''25000000'' then Num 25000000 else if s = ''0'' then Num 0 else NaN)"

definition sample_createTransferInstruction ::
  "pubkey \<Rightarrow> pubkey \<Rightarrow> pubkey \<Rightarrow> jsnum \<Rightarrow> error + instruction" where
  "sample_createTransferInstruction source destination owner amount =
     (case amount of
        NaN \<Rightarrow> Inl (LibError ''RangeError'')
      | Num n \<Rightarrow>
          Inr \<lparr>keys = [\<lparr>pubkey = source, isSigner = False, isWritable = True\<rparr>,
                       \<lparr>pubkey = destination, isSigner = False, isWritable = True\<rparr>,
                       \<lparr>pubkey = owner, isSigner = True, isWritable = False\<rparr>],
               programId = ''TokenkegQfeZyiNwAJbNbGKPFXCWuBvf9Ss623VQ5DA'',
               data = 3 # map (\<lambda>i. word_of_int (n div 256 ^ i)) [0..<8]\<rparr>)"

definition sample_supported :: json where
  "sample_supported =
     JObj [(''kinds'', JArr [JObj [(''extra'', JObj [(''feePayer'', JStr ''SponsorA'')])]])]"

definition sample_instruction :: json where
  "sample_instruction =
     JObj [(''payment_instruction'',
            JObj [(''programAddress'', JStr ''KoraProgram''),
                  (''accounts'', JArr [JObj [(''address'', JStr ''SponsorB''), (''role'', JNum 3)],
                                       JObj [(''address'', JStr ''Vault''), (''role'', JNum 1)],
                                       JObj [(''address'', JStr ''Wallet1''), (''role'', JNum 2)],
                                       JObj [(''address'', JStr ''Mint''), (''role'', JNum 0)]]),
                  (''data'', JArr [JNum 1, JNum 2, JNum 3])]),
           (''signer_address'', JStr ''SponsorB'')]"

definition sample_settled :: json where
  "sample_settled = JObj [(''success'', JBool True), (''transaction'', JStr ''TxSig1'')]"

definition sample_world :: "json \<Rightarrow> json \<Rightarrow> world" where
  "sample_world instructionAnswer settleAnswer =
     \<lparr>wallet = ''Wallet1'',
      X402_SERVICE_URL = ''https://relay'',
      UNREEL_API_URL = ''https://api'',
      PublicKey = sample_PublicKey,
      Number = sample_Number,
      fetch = (\<lambda>url body.
         if url = ''https://relay/supported/unreel-ai'' then Inr sample_supported
         else if url = ''https://relay/payment-instruction/unreel-ai'' then Inr instructionAnswer
         else if url = ''https://relay/settle/unreel-ai'' then Inr settleAnswer
         else Inl (LibError ''fetch failed'')),
      getAssociatedTokenAddress = (\<lambda>mint owner. Inr (''ata-'' @ mint @ ''-'' @ owner)),
      getLatestBlockhash = Inr ''Blockhash1'',
      createTransferInstruction = sample_createTransferInstruction,
      partialSign = (\<lambda>t. Inr ''sig-Wallet1''),
      serialize = (\<lambda>verify t. Inr (''tx-'' @ feePayer t)),
      Buffer_from_object = (\<lambda>kvs. Inl TypeError)\<rparr>"

definition sample_requirements :: "string \<Rightarrow> string \<Rightarrow> PaymentRequirements" where
  "sample_requirements net amount =
     \<lparr>network = net, payTo = ''Addr1'', asset = ''USDCMint'',
      maxAmountRequired = amount, extra = None\<rparr>"


definition sample_unsettled :: json where
  "sample_unsettled =
     JObj [(''success'', JBool False), (''errorReason'', JStr ''blockhash expired'')]"


definition sample_string_flag :: json where
  "sample_string_flag = JObj [(''success'', JStr ''false''), (''transaction'', JStr ''TxSig2'')]"

text \<open>Job services: one whose job stays pending, and two that answer 404 for a job they
  do not know, with a JSON body and with a text body.\<close>

definition sample_pending :: job_service where
  "sample_pending k = Inr \<lparr>status = 200, body = Inr (JObj [(''status'', JStr ''pending'')])\<rparr>"

definition sample_missing :: job_service where
  "sample_missing k = Inr \<lparr>status = 404, body = Inr (JObj [(''error'', JStr ''Job not found'')])\<rparr>"

definition sample_missing_text :: job_service where
  "sample_missing_text k = Inr \<lparr>status = 404, body = Inl ''Not Found''\<rparr>"

section \<open>Facts about the sequencing and the steps\<close>

lemma url_distinct:
  "url_supported w t \<noteq> url_settle w t"
  "url_supported w t \<noteq> url_payment_instruction w t"
  "url_payment_instruction w t \<noteq> url_settle w t"
  "url_payment_instruction w t \<noteq> url_supported w t"
  "url_settle w t \<noteq> url_payment_instruction w t"
  "url_settle w t \<noteq> url_supported w t"
  by (simp_all add: url_supported_def url_settle_def url_payment_instruction_def)

lemma calls_to_simps:
  "calls_to u [] = []"
  "calls_to u (Fetch u' b r # tr) = (if u' = u then (b, r) # calls_to u tr else calls_to u tr)"
  "calls_to u (GetLatestBlockhash x # tr) = calls_to u tr"
  "calls_to u (Serialize t y # tr) = calls_to u tr"
  "calls_to u (tr @ tr') = calls_to u tr @ calls_to u tr'"
  by (simp_all add: calls_to_def)

lemma drafts_simps:
  "drafts [] = []"
  "drafts (Fetch u' b r # tr) = drafts tr"
  "drafts (GetLatestBlockhash x # tr) = drafts tr"
  "drafts (Serialize t y # tr) = t # drafts tr"
  "drafts (tr @ tr') = drafts tr @ drafts tr'"
  by (simp_all add: drafts_def)

lemma andThen_lift: "andThen (lift r) f = (case r of Inl e \<Rightarrow> ([], Inl e) | Inr x \<Rightarrow> f x)"
  by (simp add: andThen_def lift_def split: sum.splits prod.splits)

lemma andThen_cases:
  assumes "andThen m f = (tr, res)"
  obtains (Fail) e where "m = (tr, Inl e)" "res = Inl e"
        | (Ok) t x t' where "m = (t, Inr x)" "f x = (t', res)" "tr = t @ t'"
  using assms by (cases m; cases "snd m") (auto simp: andThen_def split: prod.splits)

lemma step1_run:
  assumes "step1_feePayer w tid = (t, r)"
  shows "t = [Fetch (url_supported w tid) None (fetch w (url_supported w tid) None)]
       \<and> bindE (fetch w (url_supported w tid) None) supported_feePayer = r"
  using assms
  by (auto simp: step1_feePayer_def do_fetch_def andThen_def lift_def bindE_def split: sum.splits)

lemma step2_run:
  assumes "step2_baseTransaction w m p n a = (t, r)"
  shows "(t = [] \<or> t = [GetLatestBlockhash (getLatestBlockhash w)])
       \<and> (\<forall>s rc bh d. r = Inr (s, rc, bh, d) \<longrightarrow>
            getAssociatedTokenAddress w m (wallet w) = Inr s
          \<and> getAssociatedTokenAddress w m p = Inr rc
          \<and> getLatestBlockhash w = Inr bh
          \<and> t = [GetLatestBlockhash (Inr bh)]
          \<and> (\<exists>sponsor transfer.
                PublicKey w a = Inr sponsor
              \<and> createTransferInstruction w s rc (wallet w) n = Inr transfer
              \<and> d = \<lparr>recentBlockhash = bh, feePayer = sponsor,
                      instructions = [transfer], signatures = []\<rparr>))"
  using assms
  by (auto simp: step2_baseTransaction_def do_getLatestBlockhash_def andThen_def lift_def
        ret_def add_def split: sum.splits)

lemma step3_run:
  assumes "step3_paymentInstruction w req tid d = (t, r)"
  shows "(\<exists>e. serialize w False d = Inl e \<and> t = [Serialize d (Inl e)] \<and> r = Inl e)
       \<or> (\<exists>baseTx. serialize w False d = Inr baseTx
            \<and> t = [Serialize d (Inr baseTx),
                   Fetch (url_payment_instruction w tid)
                     (Some (payment_instruction_body w req baseTx))
                     (fetch w (url_payment_instruction w tid)
                        (Some (payment_instruction_body w req baseTx)))]
            \<and> bindE (fetch w (url_payment_instruction w tid)
                          (Some (payment_instruction_body w req baseTx)))
                    check_payment_instruction = r)"
  using assms
  by (auto simp: step3_paymentInstruction_def do_fetch_def do_serialize_def andThen_def
        lift_def bindE_def split: sum.splits)

lemma step5_run:
  assumes "step5_settle w req tid t' sa = (t, r)"
  shows "(\<exists>e. partialSign w t' = Inl e \<and> t = [] \<and> r = Inl e)
       \<or> (\<exists>sg e. partialSign w t' = Inr sg
            \<and> serialize w True (t'\<lparr>signatures := [(wallet w, sg)]\<rparr>) = Inl e
            \<and> t = [Serialize (t'\<lparr>signatures := [(wallet w, sg)]\<rparr>) (Inl e)] \<and> r = Inl e)
       \<or> (\<exists>sg signedTx. partialSign w t' = Inr sg
            \<and> serialize w True (t'\<lparr>signatures := [(wallet w, sg)]\<rparr>) = Inr signedTx
            \<and> t = [Serialize (t'\<lparr>signatures := [(wallet w, sg)]\<rparr>) (Inr signedTx),
                   Fetch (url_settle w tid) (Some (settle_body w req signedTx sa))
                     (fetch w (url_settle w tid) (Some (settle_body w req signedTx sa)))]
            \<and> bindE (fetch w (url_settle w tid) (Some (settle_body w req signedTx sa)))
                    check_settlement = r)"
  using assms
  by (auto simp: step5_settle_def do_fetch_def do_serialize_def andThen_def
        lift_def bindE_def split: sum.splits)

lemma step4_rebuild_Inr:
  assumes "step4_rebuild w bh sa s r n p = Inr t"
  shows "\<exists>signer transfer buf kora.
           PublicKey w sa = Inr signer
         \<and> createTransferInstruction w s r (wallet w) n = Inr transfer
         \<and> bindE (js_get p ''data'') (dataBuffer w) = Inr buf
         \<and> koraInstruction w p buf = Inr kora
         \<and> t = \<lparr>recentBlockhash = bh, feePayer = signer, instructions = [transfer, kora], signatures = []\<rparr>"
  using assms by (auto simp: step4_rebuild_def bindE_def add_def split: sum.splits)


lemma handlePayment_cases [consumes 1, case_names Early Reached]:
  assumes run: "handlePayment w req = (tr, res)"
  obtains (Early) e where
      "calls_to (url_payment_instruction w (tenantId_of req)) tr = []"
      "calls_to (url_settle w (tenantId_of req)) tr = []"
      "length (drafts tr) \<le> 1"
      "res = Inl e"
  | (Reached) payToKey usdcMint si fpa sender recipient bh sponsor transfer baseTx rest where
      "PublicKey w (JStr (payTo req)) = Inr payToKey"
      "PublicKey w (JStr (asset req)) = Inr usdcMint"
      "fetch w (url_supported w (tenantId_of req)) None = Inr si"
      "supported_feePayer si = Inr fpa"
      "getAssociatedTokenAddress w usdcMint (wallet w) = Inr sender"
      "getAssociatedTokenAddress w usdcMint payToKey = Inr recipient"
      "getLatestBlockhash w = Inr bh"
      "PublicKey w fpa = Inr sponsor"
      "createTransferInstruction w sender recipient (wallet w)
         (Number w (maxAmountRequired req)) = Inr transfer"
      "serialize w False \<lparr>recentBlockhash = bh, feePayer = sponsor,
         instructions = [transfer], signatures = []\<rparr> = Inr baseTx"
      "tr = [Fetch (url_supported w (tenantId_of req)) None (Inr si),
             GetLatestBlockhash (Inr bh),
             Serialize \<lparr>recentBlockhash = bh, feePayer = sponsor,
               instructions = [transfer], signatures = []\<rparr> (Inr baseTx),
             Fetch (url_payment_instruction w (tenantId_of req))
               (Some (payment_instruction_body w req baseTx))
               (fetch w (url_payment_instruction w (tenantId_of req))
                  (Some (payment_instruction_body w req baseTx)))] @ rest"
      "case bindE (fetch w (url_payment_instruction w (tenantId_of req))
                     (Some (payment_instruction_body w req baseTx)))
               check_payment_instruction of
         Inl e \<Rightarrow> rest = [] \<and> res = Inl e
       | Inr (paymentInstruction, signerAddress) \<Rightarrow>
           (case step4_rebuild w bh signerAddress sender recipient
                   (Number w (maxAmountRequired req)) paymentInstruction of
              Inl e \<Rightarrow> rest = [] \<and> res = Inl e
            | Inr t' \<Rightarrow> step5_settle w req (tenantId_of req) t' signerAddress = (rest, res))"
proof -
  let ?tid = "tenantId_of req"
  show ?thesis
  proof (cases "PublicKey w (JStr (payTo req))")
    case (Inl e)
    with run have "tr = []" "res = Inl e"
      by (simp_all add: handlePayment_def andThen_lift)
    then show ?thesis
      by (intro Early[of e]) (simp_all add: calls_to_simps drafts_simps)
  next
    case pk: (Inr payToKey)
    show ?thesis
    proof (cases "PublicKey w (JStr (asset req))")
      case (Inl e)
      with run pk have "tr = []" "res = Inl e"
        by (simp_all add: handlePayment_def andThen_lift)
      then show ?thesis
        by (intro Early[of e]) (simp_all add: calls_to_simps drafts_simps)
    next
      case mint: (Inr usdcMint)
      note run1 = run[unfolded handlePayment_def andThen_lift pk mint sum.case]
      from run1 show ?thesis
      proof (cases rule: andThen_cases)
        case (Fail e)
        from step1_run[OF Fail(1)] Fail(2) show ?thesis
          by (intro Early[of e]) (simp_all add: calls_to_simps drafts_simps url_distinct)
      next
        case one: (Ok t1 fpa t1')
        from step1_run[OF one(1)]
        have t1: "t1 = [Fetch (url_supported w ?tid) None (fetch w (url_supported w ?tid) None)]"
          and r1: "bindE (fetch w (url_supported w ?tid) None) supported_feePayer = Inr fpa"
          by simp_all
        from r1 obtain si where si: "fetch w (url_supported w ?tid) None = Inr si"
          and fpa: "supported_feePayer si = Inr fpa"
          by (auto simp: bindE_def split: sum.splits)
        from one(2) show ?thesis
        proof (cases rule: andThen_cases)
          case (Fail e)
          from step2_run[OF Fail(1)] Fail(2) one(3) t1 show ?thesis
            by (intro Early[of e]) (auto simp: calls_to_simps drafts_simps url_distinct)
        next
          case two: (Ok t2 x t2')
          obtain sender recipient bh d1 where x: "x = (sender, recipient, bh, d1)"
            by (cases x) auto
          from step2_run[OF two(1)] x obtain sponsor transfer where
            s2: "getAssociatedTokenAddress w usdcMint (wallet w) = Inr sender"
                "getAssociatedTokenAddress w usdcMint payToKey = Inr recipient"
                "getLatestBlockhash w = Inr bh"
                "t2 = [GetLatestBlockhash (Inr bh)]"
                "PublicKey w fpa = Inr sponsor"
                "createTransferInstruction w sender recipient (wallet w)
                   (Number w (maxAmountRequired req)) = Inr transfer"
                "d1 = \<lparr>recentBlockhash = bh, feePayer = sponsor,
                        instructions = [transfer], signatures = []\<rparr>"
            by blast
          note run3 = two(2)[unfolded x prod.case]
          from run3 show ?thesis
          proof (cases rule: andThen_cases)
            case (Fail e)
            from step3_run[OF Fail(1)] show ?thesis
            proof (elim disjE exE conjE)
              fix e' assume "t2' = [Serialize d1 (Inl e')]"
              with Fail(2) one(3) two(3) t1 s2(4) show ?thesis
                by (intro Early[of e]) (simp_all add: calls_to_simps drafts_simps url_distinct)
            next
              fix baseTx
              assume b: "serialize w False d1 = Inr baseTx"
                and t: "t2' = [Serialize d1 (Inr baseTx),
                   Fetch (url_payment_instruction w ?tid)
                     (Some (payment_instruction_body w req baseTx))
                     (fetch w (url_payment_instruction w ?tid)
                        (Some (payment_instruction_body w req baseTx)))]"
                and r: "bindE (fetch w (url_payment_instruction w ?tid)
                          (Some (payment_instruction_body w req baseTx)))
                    check_payment_instruction = Inl e"
              show ?thesis
                by (rule Reached[of payToKey usdcMint si fpa sender recipient bh sponsor
                       transfer baseTx "[]"])
                   (use b t r Fail(2) one(3) two(3) t1 s2 pk mint si fpa in simp_all)
            qed
          next
            case three: (Ok t3 y t3')
            obtain paymentInstruction signerAddress where y: "y = (paymentInstruction, signerAddress)"
              by (cases y) auto
            note run4 = three(2)[unfolded y prod.case andThen_lift]
            from step3_run[OF three(1)] obtain baseTx where
                  b: "serialize w False d1 = Inr baseTx"
              and t: "t3 = [Serialize d1 (Inr baseTx),
                   Fetch (url_payment_instruction w ?tid)
                     (Some (payment_instruction_body w req baseTx))
                     (fetch w (url_payment_instruction w ?tid)
                        (Some (payment_instruction_body w req baseTx)))]"
              and r: "bindE (fetch w (url_payment_instruction w ?tid)
                          (Some (payment_instruction_body w req baseTx)))
                    check_payment_instruction = Inr y"
              by blast
            show ?thesis
              by (rule Reached[of payToKey usdcMint si fpa sender recipient bh sponsor
                     transfer baseTx "t3'"])
                 (use b t r run4 three(3) one(3) two(3) t1 s2 pk mint si fpa y in
                   \<open>simp_all split: sum.splits\<close>)
          qed
        qed
      qed
    qed
  qed
qed

lemma check_payment_instruction_Inr:
  assumes "check_payment_instruction resp = Inr (p, sa)"
  shows "p = js_get_opt resp ''payment_instruction'' \<and> sa = js_get_opt resp ''signer_address''
       \<and> js_truthy p \<and> \<not> js_truthy (js_get_opt resp ''error'')"
  using assms
  by (auto simp: check_payment_instruction_def bindE_def js_get_opt_def Let_def split: sum.splits if_splits)

lemma handlePayment_signed [consumes 2]:
  assumes run: "handlePayment w req = (tr, res)"
    and reached: "2 \<le> length (drafts tr) \<or> calls_to (url_settle w (tenantId_of req)) tr \<noteq> []
                  \<or> (\<exists>x. res = Inr x)"
  obtains payToKey usdcMint si fpa sender recipient bh sponsor transfer baseTx resp
            signer buf kora sg out tail where
      "PublicKey w (JStr (payTo req)) = Inr payToKey"
      "PublicKey w (JStr (asset req)) = Inr usdcMint"
      "fetch w (url_supported w (tenantId_of req)) None = Inr si"
      "supported_feePayer si = Inr fpa"
      "getAssociatedTokenAddress w usdcMint (wallet w) = Inr sender"
      "getAssociatedTokenAddress w usdcMint payToKey = Inr recipient"
      "getLatestBlockhash w = Inr bh"
      "PublicKey w fpa = Inr sponsor"
      "createTransferInstruction w sender recipient (wallet w)
         (Number w (maxAmountRequired req)) = Inr transfer"
      "serialize w False \<lparr>recentBlockhash = bh, feePayer = sponsor,
         instructions = [transfer], signatures = []\<rparr> = Inr baseTx"
      "fetch w (url_payment_instruction w (tenantId_of req))
         (Some (payment_instruction_body w req baseTx)) = Inr resp"
      "js_truthy (js_get_opt resp ''payment_instruction'')"
      "\<not> js_truthy (js_get_opt resp ''error'')"
      "PublicKey w (js_get_opt resp ''signer_address'') = Inr signer"
      "bindE (js_get (js_get_opt resp ''payment_instruction'') ''data'') (dataBuffer w) = Inr buf"
      "koraInstruction w (js_get_opt resp ''payment_instruction'') buf = Inr kora"
      "partialSign w \<lparr>recentBlockhash = bh, feePayer = signer,
         instructions = [transfer, kora], signatures = []\<rparr> = Inr sg"
      "serialize w True \<lparr>recentBlockhash = bh, feePayer = signer,
         instructions = [transfer, kora], signatures = [(wallet w, sg)]\<rparr> = out"
      "tr = [Fetch (url_supported w (tenantId_of req)) None (Inr si),
             GetLatestBlockhash (Inr bh),
             Serialize \<lparr>recentBlockhash = bh, feePayer = sponsor,
               instructions = [transfer], signatures = []\<rparr> (Inr baseTx),
             Fetch (url_payment_instruction w (tenantId_of req))
               (Some (payment_instruction_body w req baseTx)) (Inr resp),
             Serialize \<lparr>recentBlockhash = bh, feePayer = signer,
               instructions = [transfer, kora], signatures = [(wallet w, sg)]\<rparr> out] @ tail"
      "case out of
         Inl e \<Rightarrow> tail = [] \<and> res = Inl e
       | Inr signedTx \<Rightarrow>
           tail = [Fetch (url_settle w (tenantId_of req))
                    (Some (settle_body w req signedTx (js_get_opt resp ''signer_address'')))
                    (fetch w (url_settle w (tenantId_of req))
                       (Some (settle_body w req signedTx (js_get_opt resp ''signer_address''))))]
         \<and> res = bindE (fetch w (url_settle w (tenantId_of req))
                       (Some (settle_body w req signedTx (js_get_opt resp ''signer_address''))))
                   check_settlement"
proof -
  let ?tid = "tenantId_of req"
  from run obtain payToKey usdcMint si fpa sender recipient bh sponsor transfer baseTx rest where
    f: "PublicKey w (JStr (payTo req)) = Inr payToKey"
       "PublicKey w (JStr (asset req)) = Inr usdcMint"
       "fetch w (url_supported w ?tid) None = Inr si"
       "supported_feePayer si = Inr fpa"
       "getAssociatedTokenAddress w usdcMint (wallet w) = Inr sender"
       "getAssociatedTokenAddress w usdcMint payToKey = Inr recipient"
       "getLatestBlockhash w = Inr bh"
       "PublicKey w fpa = Inr sponsor"
       "createTransferInstruction w sender recipient (wallet w)
                (Number w (maxAmountRequired req)) = Inr transfer"
       "serialize w False \<lparr>recentBlockhash = bh, feePayer = sponsor,
                instructions = [transfer], signatures = []\<rparr> = Inr baseTx"
    and tr: "tr = [Fetch (url_supported w ?tid) None (Inr si),
                   GetLatestBlockhash (Inr bh),
                   Serialize \<lparr>recentBlockhash = bh, feePayer = sponsor,
                     instructions = [transfer], signatures = []\<rparr> (Inr baseTx),
                   Fetch (url_payment_instruction w ?tid)
                     (Some (payment_instruction_body w req baseTx))
                     (fetch w (url_payment_instruction w ?tid)
                        (Some (payment_instruction_body w req baseTx)))] @ rest"
    and k: "(case bindE (fetch w (url_payment_instruction w ?tid)
                            (Some (payment_instruction_body w req baseTx)))
                      check_payment_instruction of
                 Inl e \<Rightarrow> rest = [] \<and> res = Inl e
               | Inr (paymentInstruction, signerAddress) \<Rightarrow>
                   (case step4_rebuild w bh signerAddress sender recipient
                           (Number w (maxAmountRequired req)) paymentInstruction of
                      Inl e \<Rightarrow> rest = [] \<and> res = Inl e
                    | Inr t' \<Rightarrow>
                        step5_settle w req ?tid t' signerAddress = (rest, res)))"
  proof (cases rule: handlePayment_cases)
    case (Early e)
    with reached show ?thesis by simp
  next
    case (Reached payToKey usdcMint si fpa sender recipient bh sponsor transfer baseTx rest)
    then show ?thesis by (rule that)
  qed
  have not_short: "rest \<noteq> [] \<or> (\<exists>x. res = Inr x)"
    using reached tr by (auto simp: calls_to_simps drafts_simps url_distinct)
  from k not_short obtain p sa where
    c: "bindE (fetch w (url_payment_instruction w ?tid)
                 (Some (payment_instruction_body w req baseTx)))
          check_payment_instruction = Inr (p, sa)"
    by (cases "bindE (fetch w (url_payment_instruction w ?tid)
                 (Some (payment_instruction_body w req baseTx)))
          check_payment_instruction") auto
  then obtain resp where
    resp: "fetch w (url_payment_instruction w ?tid)
                 (Some (payment_instruction_body w req baseTx)) = Inr resp"
    and chk: "check_payment_instruction resp = Inr (p, sa)"
    by (auto simp: bindE_def split: sum.splits)
  note pi = check_payment_instruction_Inr[OF chk]
  from k c not_short obtain t' where
    t': "step4_rebuild w bh sa sender recipient (Number w (maxAmountRequired req)) p = Inr t'"
    and s5: "step5_settle w req ?tid t' sa = (rest, res)"
    by (cases "step4_rebuild w bh sa sender recipient (Number w (maxAmountRequired req)) p") auto
  from step4_rebuild_Inr[OF t'] f(9) obtain signer buf kora where
    g: "PublicKey w sa = Inr signer"
       "bindE (js_get p ''data'') (dataBuffer w) = Inr buf"
       "koraInstruction w p buf = Inr kora"
       "t' = \<lparr>recentBlockhash = bh, feePayer = signer,
               instructions = [transfer, kora], signatures = []\<rparr>"
    by auto
  from step5_run[OF s5] not_short obtain sg where
    sg: "partialSign w t' = Inr sg"
    and out: "(\<exists>e. serialize w True (t'\<lparr>signatures := [(wallet w, sg)]\<rparr>) = Inl e
            \<and> rest = [Serialize (t'\<lparr>signatures := [(wallet w, sg)]\<rparr>) (Inl e)] \<and> res = Inl e)
       \<or> (\<exists>signedTx.
              serialize w True (t'\<lparr>signatures := [(wallet w, sg)]\<rparr>) = Inr signedTx
            \<and> rest = [Serialize (t'\<lparr>signatures := [(wallet w, sg)]\<rparr>) (Inr signedTx),
                   Fetch (url_settle w ?tid) (Some (settle_body w req signedTx sa))
                     (fetch w (url_settle w ?tid) (Some (settle_body w req signedTx sa)))]
            \<and> bindE (fetch w (url_settle w ?tid) (Some (settle_body w req signedTx sa)))
                    check_settlement = res)"
    by auto
  show ?thesis
    by (rule that[of payToKey usdcMint si fpa sender recipient bh sponsor transfer baseTx resp
           signer buf kora sg
           "serialize w True \<lparr>recentBlockhash = bh, feePayer = signer,
                instructions = [transfer, kora], signatures = [(wallet w, sg)]\<rparr>"
           "tl rest"])
       (use f tr resp pi g sg out in \<open>auto\<close>)
qed



lemma check_settlement_refused:
  assumes "\<not> js_truthy (js_get_opt settled ''success'')"
  shows "check_settlement settled =
           (if settled = JNull \<or> settled = JUndefined then Inl TypeError
            else Inl (Error (''Settlement failed: '' @
                   js_toString (js_or (js_get_opt settled ''errorReason'')
                                 (js_or (js_get_opt settled ''error'') (JStr ''Unknown error''))))))"
  using assms
  by (cases settled) (simp_all add: check_settlement_def bindE_def js_get_opt_def)

lemma check_settlement_Inr:
  assumes "check_settlement settled = Inr txid"
  shows "js_truthy (js_get_opt settled ''success'') \<and> txid = js_get_opt settled ''transaction''"
  using assms
  by (cases settled) (auto simp: check_settlement_def bindE_def js_get_opt_def split: if_splits)

lemma mapM_Inr:
  "mapM f xs = Inr ys \<Longrightarrow> list_all2 (\<lambda>x y. f x = Inr y) xs ys"
  by (induction xs arbitrary: ys) (auto split: sum.splits)

lemma koraInstruction_Inr:
  assumes "koraInstruction w p buf = Inr kora"
  shows "\<exists>accounts. js_get_opt p ''accounts'' = JArr accounts
          \<and> list_all2 (\<lambda>a m. accountMeta w a = Inr m) accounts (keys kora)
          \<and> PublicKey w (js_get_opt p ''programAddress'') = Inr (programId kora)
          \<and> data kora = buf"
  using assms
  by (auto simp: koraInstruction_def bindE_def js_get_opt_def dest: mapM_Inr
           split: sum.splits json.splits)

subsection \<open>Evaluating the sample world\<close>

lemmas run_defs =
  handlePayment_def step1_feePayer_def step2_baseTransaction_def step3_paymentInstruction_def
  step4_rebuild_def step5_settle_def supported_feePayer_def check_payment_instruction_def
  check_settlement_def koraInstruction_def accountMeta_def dataBuffer_def
  url_supported_def url_payment_instruction_def url_settle_def payment_instruction_body_def
  settle_body_def tenantId_of_def andThen_def lift_def ret_def bindE_def do_fetch_def
  do_serialize_def do_getLatestBlockhash_def add_def js_get_opt_def js_or_def
  role_isSigner_def role_isWritable_def Array_isArray_def typeof_object_def ToUint8_def

lemmas sample_defs =
  sample_world_def sample_requirements_def sample_PublicKey_def sample_Number_def
  sample_createTransferInstruction_def sample_supported_def sample_instruction_def
  sample_settled_def

lemma sample_paid:
  "snd (handlePayment (sample_world sample_instruction sample_settled)
          (sample_requirements net ''25000000''))
   = Inr (JStr ''TxSig1'')"
  by (simp add: run_defs sample_defs)

lemmas eval_defs = run_defs sample_defs calls_to_def drafts_def

section \<open>Facts about the pollers\<close>

lemma pollJobStatus_loop_pending:
  assumes "a < m" and "fetch_pending (srv a)"
  shows "pollJobStatus_loop fmul srv m a d =
           (d # fst (pollJobStatus_loop fmul srv m (a + 1) (min (fmul d 1.2) 30000)),
            snd (pollJobStatus_loop fmul srv m (a + 1) (min (fmul d 1.2) 30000)))"
  using assms
  by (subst pollJobStatus_loop.simps)
     (auto simp: fetch_pending_def split: sum.splits prod.splits)

lemma pollJobStatus_axios_loop_pending:
  assumes "a < m" and "axios_pending (srv a)"
  shows "pollJobStatus_axios_loop fmul srv jobId m a d =
           (d # fst (pollJobStatus_axios_loop fmul srv jobId m (a + 1) (min (fmul d 1.2) 30000)),
            snd (pollJobStatus_axios_loop fmul srv jobId m (a + 1) (min (fmul d 1.2) 30000)))"
  using assms
  by (subst pollJobStatus_axios_loop.simps)
     (auto simp: axios_pending_def split: sum.splits prod.splits)

lemma pollJobStatus_loop_skip:
  assumes "\<forall>j. a \<le> j \<and> j < k \<longrightarrow> fetch_pending (srv j)" and "a \<le> k" and "k \<le> m"
  shows "\<exists>d'. snd (pollJobStatus_loop fmul srv m a d) = snd (pollJobStatus_loop fmul srv m k d')"
  using assms
proof (induction "k - a" arbitrary: a d)
  case 0
  then show ?case by auto
next
  case (Suc n)
  then have a: "a < m" "fetch_pending (srv a)" by auto
  from Suc have "\<exists>d'. snd (pollJobStatus_loop fmul srv m (a + 1) (min (fmul d 1.2) 30000))
                     = snd (pollJobStatus_loop fmul srv m k d')"
    by (intro Suc.hyps(1)) auto
  with pollJobStatus_loop_pending[of a m srv fmul d] a show ?case by simp
qed

lemma pollJobStatus_axios_loop_skip:
  assumes "\<forall>j. a \<le> j \<and> j < k \<longrightarrow> axios_pending (srv j)" and "a \<le> k" and "k \<le> m"
  shows "\<exists>d'. snd (pollJobStatus_axios_loop fmul srv jobId m a d)
              = snd (pollJobStatus_axios_loop fmul srv jobId m k d')"
  using assms
proof (induction "k - a" arbitrary: a d)
  case 0
  then show ?case by auto
next
  case (Suc n)
  then have a: "a < m" "axios_pending (srv a)" by auto
  from Suc have "\<exists>d'. snd (pollJobStatus_axios_loop fmul srv jobId m (a + 1)
                            (min (fmul d 1.2) 30000))
                     = snd (pollJobStatus_axios_loop fmul srv jobId m k d')"
    by (intro Suc.hyps(1)) auto
  with pollJobStatus_axios_loop_pending[of a m srv fmul jobId d] a show ?case by simp
qed

text \<open>The delays slept are the iterates of one step of the back-off.\<close>

lemma pollJobStatus_loop_sleeps:
  "pollJobStatus_loop fmul srv m a d = (ds, r) \<Longrightarrow> i < length ds \<Longrightarrow>
     ds ! i = ((\<lambda>x. min (fmul x 1.2) 30000) ^^ i) d"
proof (induction fmul srv m a d arbitrary: ds r i rule: pollJobStatus_loop.induct)
  case (1 fmul srv maxAttempts attempt delay)
  show ?case
  proof (cases "attempt < maxAttempts \<and> fetch_pending (srv attempt)")
    case False
    with "1.prems" have "ds = []"
      by (auto simp: pollJobStatus_loop.simps[of fmul srv maxAttempts attempt delay]
            fetch_pending_def split: sum.splits if_splits)
    with "1.prems" show ?thesis by simp
  next
    case True
    then obtain job st where j: "bindE (srv attempt) res_json = Inr job"
      "js_get job ''status'' = Inr st" "st \<noteq> JStr ''completed''" "st \<noteq> JStr ''failed''"
      "attempt < maxAttempts"
      by (auto simp: fetch_pending_def split: sum.splits)
    obtain ds' r' where rec: "pollJobStatus_loop fmul srv maxAttempts (attempt + 1)
        (min (fmul delay 1.2) 30000) = (ds', r')"
      by (cases "pollJobStatus_loop fmul srv maxAttempts (attempt + 1)
                   (min (fmul delay 1.2) 30000)")
    with j "1.prems"(1) have ds: "ds = delay # ds'"
      by (simp add: pollJobStatus_loop.simps[of fmul srv maxAttempts attempt delay])
    show ?thesis
    proof (cases i)
      case 0
      with ds show ?thesis by simp
    next
      case (Suc i')
      with ds "1.prems"(2) have "i' < length ds'" by simp
      from "1.IH"[OF j(5) j(1) j(2) j(3) j(4) rec this] ds Suc
        funpow_swap1[of "\<lambda>x. min (fmul x 1.2) 30000" i' delay]
      show ?thesis
        by simp
    qed
  qed
qed

text \<open>With the exact product, the iterates have a closed form.\<close>

lemma backoff_closed:
  "((\<lambda>x::real. min (x * 1.2) 30000) ^^ k) d = (if k = 0 then d else min (d * 1.2 ^ k) 30000)"
proof (induction k)
  case 0
  then show ?case by simp
next
  case (Suc k)
  let ?f = "\<lambda>x::real. min (x * 1.2) 30000"
  have h: "?f (min x 30000) = ?f x" for x
    by (simp add: min_def)
  show ?case
  proof (cases "k = 0")
    case True
    then show ?thesis by simp
  next
    case False
    with Suc have "(?f ^^ Suc k) d = ?f (min (d * 1.2 ^ k) 30000)"
      by simp
    also have "\<dots> = ?f (d * 1.2 ^ k)"
      by (rule h)
    also have "\<dots> = min (d * 1.2 ^ Suc k) 30000"
      by (simp add: ac_simps)
    finally show ?thesis by simp
  qed
qed

text \<open>
  With a product that, on the delays from 5000 to the cap, is off by at most a
  thousandth of its first factor (a double product is off by far less), the iterates
  from 5000 stay below the cap for nine steps and sit on it from the tenth.
\<close>

lemma backoff_from_5000:
  fixes fmul :: product
  assumes rounding: "\<forall>x. 5000 \<le> x \<and> x \<le> 30000 \<longrightarrow> \<bar>fmul x 1.2 - x * 1.2\<bar> \<le> x / 1000"
  shows "(k < 10 \<longrightarrow> 5000 * 1.199 ^ k \<le> ((\<lambda>x. min (fmul x 1.2) 30000) ^^ k) 5000
                   \<and> ((\<lambda>x. min (fmul x 1.2) 30000) ^^ k) 5000 \<le> 5000 * 1.201 ^ k)
       \<and> (10 \<le> k \<longrightarrow> ((\<lambda>x. min (fmul x 1.2) 30000) ^^ k) 5000 = 30000)"
proof (induction k)
  case 0
  then show ?case by simp
next
  case (Suc k)
  let ?f = "\<lambda>x. min (fmul x 1.2) 30000"
  let ?d = "(?f ^^ k) 5000"
  have near: "1.199 * x \<le> fmul x 1.2 \<and> fmul x 1.2 \<le> 1.201 * x"
    if "5000 \<le> x" "x \<le> 30000" for x
  proof -
    from rounding that have "\<bar>fmul x 1.2 - x * 1.2\<bar> \<le> x / 1000" by blast
    then have "fmul x 1.2 - x * 1.2 \<le> x / 1000" and "- (fmul x 1.2 - x * 1.2) \<le> x / 1000"
      by (simp_all only: abs_le_iff)
    then show ?thesis
      by (simp add: field_simps)
  qed
  have step: "(?f ^^ Suc k) 5000 = min (fmul ?d 1.2) 30000"
    by simp
  show ?case
  proof (cases "k < 10")
    case True
    with Suc have lo: "5000 * 1.199 ^ k \<le> ?d" and hi: "?d \<le> 5000 * 1.201 ^ k"
      by simp_all
    from True have "(1.201::real) ^ k \<le> 1.201 ^ 9"
      by (intro power_increasing) simp_all
    also have "(1.201::real) ^ 9 < 6"
      by (simp add: power_divide)
    finally have top: "5000 * (1.201::real) ^ k < 30000"
      by simp
    have "(1::real) \<le> 1.199 ^ k"
      by (rule one_le_power) simp
    with lo have pos: "5000 \<le> ?d" by linarith
    from hi top have le: "?d \<le> 30000" by linarith
    note n = near[OF pos le]
    show ?thesis
    proof (cases "Suc k < 10")
      case small: True
      then have "(1.201::real) ^ Suc k \<le> 1.201 ^ 9"
        by (intro power_increasing) simp_all
      also have "(1.201::real) ^ 9 < 6"
        by (simp add: power_divide)
      finally have "5000 * (1.201::real) ^ Suc k < 30000"
        by simp
      moreover from n hi have "fmul ?d 1.2 \<le> 5000 * 1.201 ^ Suc k"
        by simp
      moreover from n lo have "5000 * 1.199 ^ Suc k \<le> fmul ?d 1.2"
        by simp
      ultimately show ?thesis
        using small step by (simp add: min_def)
    next
      case False
      with True have k: "k = 9" by simp
      have "(6::real) < 1.199 ^ 10"
        by (simp add: power_divide)
      then have "(30000::real) < 5000 * 1.199 ^ Suc k"
        using k by simp
      moreover from n lo have "5000 * 1.199 ^ Suc k \<le> fmul ?d 1.2"
        by simp
      ultimately show ?thesis
        using k step by (simp add: min_def)
    qed
  next
    case False
    with Suc have d: "?d = 30000" by simp
    from near[of 30000] have "30000 \<le> fmul 30000 1.2"
      by simp
    with d False step show ?thesis
      by (simp add: min_def)
  qed
qed

lemma sample_pending_sleeps:
  "fst (pollJobStatus exact_product sample_pending jobId 12 5000) =
     [5000, 6000, 7200, 8640, 10368, 12441.6, 14929.92, 17915.904, 21499.0848, 25798.90176,
      30000, 30000]"
  by (simp add: pollJobStatus_def pollJobStatus_loop.simps sample_pending_def res_json_def
        bindE_def exact_product_def)

lemma Number_toString_3: "Number_toString 3 = ''3''"
  by code_simp

text \<open>What the poller of the axios client returns, after any number of pending answers.\<close>

lemma pollJobStatus_axios_outcomes:
  assumes pending: "\<forall>j<k. axios_pending (srv j)"
  shows "k < m \<and> bindE (srv k) axios_data = Inr dat
           \<and> js_get dat ''status'' = Inr (JStr ''completed'')
         \<longrightarrow> snd (pollJobStatus_axios fmul srv jobId m d) = Inr dat"
    and "k < m \<and> bindE (srv k) axios_data = Inr dat
           \<and> js_get dat ''status'' = Inr (JStr ''failed'')
         \<longrightarrow> snd (pollJobStatus_axios fmul srv jobId m d) =
               Inl (Error (''Job failed: '' @
                      js_toString (js_or (js_get_opt dat ''error'') (JStr ''Unknown error''))))"
    and "k < m \<and> srv k = Inr res \<and> status res = 404
         \<longrightarrow> snd (pollJobStatus_axios fmul srv jobId m d)
             = Inl (Error (''Job not found: '' @ jobId))"
    and "k = m
         \<longrightarrow> snd (pollJobStatus_axios fmul srv jobId m d) =
               Inl (Error (''Job timed out after '' @ Number_toString (int m) @ '' attempts''))"
proof -
  have skip: "\<exists>d'. snd (pollJobStatus_axios fmul srv jobId m d)
                  = snd (pollJobStatus_axios_loop fmul srv jobId m k d')" if "k \<le> m"
    unfolding pollJobStatus_axios_def
    using pending that by (intro pollJobStatus_axios_loop_skip) auto
  show "k < m \<and> bindE (srv k) axios_data = Inr dat
           \<and> js_get dat ''status'' = Inr (JStr ''completed'')
         \<longrightarrow> snd (pollJobStatus_axios fmul srv jobId m d) = Inr dat"
    using skip by (auto simp: pollJobStatus_axios_loop.simps[of fmul srv jobId m k])
  show "k < m \<and> bindE (srv k) axios_data = Inr dat
           \<and> js_get dat ''status'' = Inr (JStr ''failed'')
         \<longrightarrow> snd (pollJobStatus_axios fmul srv jobId m d) =
               Inl (Error (''Job failed: '' @
                      js_toString (js_or (js_get_opt dat ''error'') (JStr ''Unknown error''))))"
    using skip
    by (auto simp: pollJobStatus_axios_loop.simps[of fmul srv jobId m k] poll_catch_def)
  show "k < m \<and> srv k = Inr res \<and> status res = 404
         \<longrightarrow> snd (pollJobStatus_axios fmul srv jobId m d)
             = Inl (Error (''Job not found: '' @ jobId))"
    using skip
    by (auto simp: pollJobStatus_axios_loop.simps[of fmul srv jobId m k] poll_catch_def
          axios_data_def bindE_def)
  show "k = m
         \<longrightarrow> snd (pollJobStatus_axios fmul srv jobId m d) =
               Inl (Error (''Job timed out after '' @ Number_toString (int m) @ '' attempts''))"
    using skip by (auto simp: pollJobStatus_axios_loop.simps[of fmul srv jobId m k])
qed

text \<open>The poller of \<^verbatim>\<open>src/index.ts\<close> has the three outcomes that do not depend on
  the HTTP status.\<close>

lemma pollJobStatus_outcomes:
  assumes pending: "\<forall>j<k. fetch_pending (srv j)"
  shows "k < m \<and> bindE (srv k) res_json = Inr job
           \<and> js_get job ''status'' = Inr (JStr ''completed'')
         \<longrightarrow> snd (pollJobStatus fmul srv jobId m d) = Inr job"
    and "k < m \<and> bindE (srv k) res_json = Inr job
           \<and> js_get job ''status'' = Inr (JStr ''failed'')
         \<longrightarrow> snd (pollJobStatus fmul srv jobId m d) =
               Inl (Error (''Job failed: '' @
                      js_toString (js_or (js_get_opt job ''error'') (JStr ''Unknown error''))))"
    and "k = m
         \<longrightarrow> snd (pollJobStatus fmul srv jobId m d) =
               Inl (Error (''Job timed out after '' @ Number_toString (int m) @ '' attempts''))"
proof -
  have skip: "\<exists>d'. snd (pollJobStatus fmul srv jobId m d)
                  = snd (pollJobStatus_loop fmul srv m k d')" if "k \<le> m"
    unfolding pollJobStatus_def
    using pending that by (intro pollJobStatus_loop_skip) auto
  show "k < m \<and> bindE (srv k) res_json = Inr job
           \<and> js_get job ''status'' = Inr (JStr ''completed'')
         \<longrightarrow> snd (pollJobStatus fmul srv jobId m d) = Inr job"
    using skip by (auto simp: pollJobStatus_loop.simps[of fmul srv m k])
  show "k < m \<and> bindE (srv k) res_json = Inr job
           \<and> js_get job ''status'' = Inr (JStr ''failed'')
         \<longrightarrow> snd (pollJobStatus fmul srv jobId m d) =
               Inl (Error (''Job failed: '' @
                      js_toString (js_or (js_get_opt job ''error'') (JStr ''Unknown error''))))"
    using skip by (auto simp: pollJobStatus_loop.simps[of fmul srv m k])
  show "k = m
         \<longrightarrow> snd (pollJobStatus fmul srv jobId m d) =
               Inl (Error (''Job timed out after '' @ Number_toString (int m) @ '' attempts''))"
    using skip by (auto simp: pollJobStatus_loop.simps[of fmul srv m k])
qed

section \<open>The claims about handlePayment\<close>

text \<open>
  Claim C1.  In every successful negotiation there are exactly two drafts.  The first
  has the sponsor advertised in step 1 as its fee payer.  The second, which is the one
  signed and sent to the settlement endpoint, has the \<^verbatim>\<open>signer_address\<close> returned with
  the relay's instruction as its fee payer and the same blockhash as the first.  The
  settlement endpoint is called once, with the serialisation of that second draft, so the
  sponsor of step 1 is never the fee payer of a settled transaction unless the relay
  returned it as the signer.
\<close>

theorem final_draft_pays_with_relay_signer:
  assumes run: "handlePayment w req = (tr, Inr txid)"
  shows "\<exists>si sponsorAddress resp d1 d2 signedTx settled.
           calls_to (url_supported w (tenantId_of req)) tr = [(None, Inr si)]
         \<and> supported_feePayer si = Inr sponsorAddress
         \<and> PublicKey w sponsorAddress = Inr (feePayer d1)
         \<and> map snd (calls_to (url_payment_instruction w (tenantId_of req)) tr) = [Inr resp]
         \<and> drafts tr = [d1, d2]
         \<and> PublicKey w (js_get_opt resp ''signer_address'') = Inr (feePayer d2)
         \<and> recentBlockhash d2 = recentBlockhash d1
         \<and> serialize w True d2 = Inr signedTx
         \<and> calls_to (url_settle w (tenantId_of req)) tr =
             [(Some (settle_body w req signedTx (js_get_opt resp ''signer_address'')), Inr settled)]"
proof -
  have "2 \<le> length (drafts tr) \<or> calls_to (url_settle w (tenantId_of req)) tr \<noteq> []
         \<or> (\<exists>x. Inr txid = (Inr x :: error + json))"
    by simp
  with run obtain payToKey usdcMint si fpa sender recipient bh sponsor transfer baseTx resp
      signer buf kora sg out tail
    where f: "fetch w (url_supported w (tenantId_of req)) None = Inr si"
      "supported_feePayer si = Inr fpa"
      "PublicKey w fpa = Inr sponsor"
      "PublicKey w (js_get_opt resp ''signer_address'') = Inr signer"
      "serialize w True \<lparr>recentBlockhash = bh, feePayer = signer,
         instructions = [transfer, kora], signatures = [(wallet w, sg)]\<rparr> = out"
      and tr: "tr = [Fetch (url_supported w (tenantId_of req)) None (Inr si),
             GetLatestBlockhash (Inr bh),
             Serialize \<lparr>recentBlockhash = bh, feePayer = sponsor,
               instructions = [transfer], signatures = []\<rparr> (Inr baseTx),
             Fetch (url_payment_instruction w (tenantId_of req))
               (Some (payment_instruction_body w req baseTx)) (Inr resp),
             Serialize \<lparr>recentBlockhash = bh, feePayer = signer,
               instructions = [transfer, kora], signatures = [(wallet w, sg)]\<rparr> out] @ tail"
      and k: "case out of
         Inl e \<Rightarrow> tail = [] \<and> Inr txid = (Inl e :: error + json)
       | Inr signedTx \<Rightarrow>
           tail = [Fetch (url_settle w (tenantId_of req))
                    (Some (settle_body w req signedTx (js_get_opt resp ''signer_address'')))
                    (fetch w (url_settle w (tenantId_of req))
                       (Some (settle_body w req signedTx (js_get_opt resp ''signer_address''))))]
         \<and> Inr txid = bindE (fetch w (url_settle w (tenantId_of req))
                       (Some (settle_body w req signedTx (js_get_opt resp ''signer_address''))))
                   check_settlement"
    by (rule handlePayment_signed)
  from k obtain signedTx settled where
    out: "out = Inr signedTx"
    and tail: "tail = [Fetch (url_settle w (tenantId_of req))
                    (Some (settle_body w req signedTx (js_get_opt resp ''signer_address'')))
                    (Inr settled)]"
    by (cases out) (auto simp: bindE_def split: sum.splits)
  show ?thesis
    apply (rule exI[of _ si], rule exI[of _ fpa], rule exI[of _ resp],
           rule exI[of _ "\<lparr>recentBlockhash = bh, feePayer = sponsor,
               instructions = [transfer], signatures = []\<rparr>"],
           rule exI[of _ "\<lparr>recentBlockhash = bh, feePayer = signer,
               instructions = [transfer, kora], signatures = [(wallet w, sg)]\<rparr>"],
           rule exI[of _ signedTx], rule exI[of _ settled])
    using f tr out tail
    apply (simp add: calls_to_simps drafts_simps url_distinct)
    done
qed

theorem final_draft_pays_with_relay_signer_witness:
  "snd (handlePayment (sample_world sample_instruction sample_settled)
          (sample_requirements ''solana:5eykt4UsFv8P8NJdTREpY1vzqKqZKvdp'' ''25000000''))
     = Inr (JStr ''TxSig1'')
   \<and> (\<exists>d1 d2.
         drafts (fst (handlePayment (sample_world sample_instruction sample_settled)
            (sample_requirements ''solana:5eykt4UsFv8P8NJdTREpY1vzqKqZKvdp'' ''25000000'')))
           = [d1, d2]
       \<and> feePayer d1 = ''SponsorA'' \<and> feePayer d2 = ''SponsorB''
       \<and> recentBlockhash d2 = recentBlockhash d1)"
proof -
  let ?w = "sample_world sample_instruction sample_settled"
  let ?r = "sample_requirements ''solana:5eykt4UsFv8P8NJdTREpY1vzqKqZKvdp'' ''25000000''"
  have paid: "snd (handlePayment ?w ?r) = Inr (JStr ''TxSig1'')"
    by (rule sample_paid)
  then have run: "handlePayment ?w ?r = (fst (handlePayment ?w ?r), Inr (JStr ''TxSig1''))"
    by (simp add: prod_eq_iff)
  from final_draft_pays_with_relay_signer[OF run]
  obtain si sponsorAddress resp d1 d2 where
    a: "calls_to (url_supported ?w (tenantId_of ?r)) (fst (handlePayment ?w ?r)) = [(None, Inr si)]"
       "supported_feePayer si = Inr sponsorAddress"
       "PublicKey ?w sponsorAddress = Inr (feePayer d1)"
       "map snd (calls_to (url_payment_instruction ?w (tenantId_of ?r)) (fst (handlePayment ?w ?r)))
          = [Inr resp]"
       "drafts (fst (handlePayment ?w ?r)) = [d1, d2]"
       "PublicKey ?w (js_get_opt resp ''signer_address'') = Inr (feePayer d2)"
       "recentBlockhash d2 = recentBlockhash d1"
    by (elim exE conjE) (rule that)
  have j: "calls_to (url_supported ?w (tenantId_of ?r)) (fst (handlePayment ?w ?r))
             = [(None, Inr sample_supported)]"
          "map snd (calls_to (url_payment_instruction ?w (tenantId_of ?r)) (fst (handlePayment ?w ?r)))
             = [Inr sample_instruction]"
    by (simp_all add: run_defs sample_world_def sample_requirements_def sample_PublicKey_def
          sample_Number_def sample_createTransferInstruction_def calls_to_def
          sample_supported_def sample_instruction_def)
  from a(1) j(1) have "si = sample_supported" by simp
  with a(2) have "sponsorAddress = JStr ''SponsorA''"
    by (simp add: sample_supported_def supported_feePayer_def bindE_def js_get_opt_def)
  with a(3) have f1: "feePayer d1 = ''SponsorA''"
    by (simp add: sample_world_def sample_PublicKey_def)
  from a(4) j(2) have "resp = sample_instruction" by simp
  with a(6) have f2: "feePayer d2 = ''SponsorB''"
    by (simp add: sample_world_def sample_PublicKey_def sample_instruction_def js_get_opt_def)
  from paid a(5,7) f1 f2 show ?thesis by blast
qed

text \<open>
  Claim C2.  Whenever handlePayment has built its final draft, that draft holds exactly
  two instructions: the transfer instruction, then the relay's instruction, whatever
  the accounts of the relay's instruction are and in whatever order they come.  The
  relay's instruction is the one of the instruction answer: its accounts are those of
  the answer, translated one by one in their order, its program is the answer's
  \<^verbatim>\<open>programAddress\<close> and its data are the bytes of the answer's \<^verbatim>\<open>data\<close>.  The transfer
  instruction is the one of the first draft, the value of the same call on the same
  source, destination, authority and amount.  Besides the wallet's signature, the
  final draft differs from the first only in the fee payer and in the appended
  instruction.
\<close>

theorem final_draft_instruction_order:
  assumes run: "handlePayment w req = (tr, res)"
    and two: "drafts tr = [d1, d2]"
  shows "\<exists>payToKey usdcMint sender recipient transfer kora resp accounts sg.
           PublicKey w (JStr (payTo req)) = Inr payToKey
         \<and> PublicKey w (JStr (asset req)) = Inr usdcMint
         \<and> getAssociatedTokenAddress w usdcMint (wallet w) = Inr sender
         \<and> getAssociatedTokenAddress w usdcMint payToKey = Inr recipient
         \<and> createTransferInstruction w sender recipient (wallet w)
              (Number w (maxAmountRequired req)) = Inr transfer
         \<and> instructions d1 = [transfer]
         \<and> instructions d2 = [transfer, kora]
         \<and> map snd (calls_to (url_payment_instruction w (tenantId_of req)) tr) = [Inr resp]
         \<and> js_get_opt (js_get_opt resp ''payment_instruction'') ''accounts'' = JArr accounts
         \<and> list_all2 (\<lambda>a m. accountMeta w a = Inr m) accounts (keys kora)
         \<and> PublicKey w (js_get_opt (js_get_opt resp ''payment_instruction'') ''programAddress'')
             = Inr (programId kora)
         \<and> bindE (js_get (js_get_opt resp ''payment_instruction'') ''data'') (dataBuffer w)
             = Inr (data kora)
         \<and> d2 = d1\<lparr>feePayer := feePayer d2, instructions := instructions d1 @ [kora],
                    signatures := [(wallet w, sg)]\<rparr>"
proof -
  from two have "2 \<le> length (drafts tr) \<or> calls_to (url_settle w (tenantId_of req)) tr \<noteq> []
         \<or> (\<exists>x. res = Inr x)"
    by simp
  with run obtain payToKey usdcMint si fpa sender recipient bh sponsor transfer baseTx resp
      signer buf kora sg out tail
    where f: "PublicKey w (JStr (payTo req)) = Inr payToKey"
      "PublicKey w (JStr (asset req)) = Inr usdcMint"
      "getAssociatedTokenAddress w usdcMint (wallet w) = Inr sender"
      "getAssociatedTokenAddress w usdcMint payToKey = Inr recipient"
      "createTransferInstruction w sender recipient (wallet w)
         (Number w (maxAmountRequired req)) = Inr transfer"
      and buf: "bindE (js_get (js_get_opt resp ''payment_instruction'') ''data'') (dataBuffer w)
                  = Inr buf"
      and kora: "koraInstruction w (js_get_opt resp ''payment_instruction'') buf = Inr kora"
      and tr: "tr = [Fetch (url_supported w (tenantId_of req)) None (Inr si),
             GetLatestBlockhash (Inr bh),
             Serialize \<lparr>recentBlockhash = bh, feePayer = sponsor,
               instructions = [transfer], signatures = []\<rparr> (Inr baseTx),
             Fetch (url_payment_instruction w (tenantId_of req))
               (Some (payment_instruction_body w req baseTx)) (Inr resp),
             Serialize \<lparr>recentBlockhash = bh, feePayer = signer,
               instructions = [transfer, kora], signatures = [(wallet w, sg)]\<rparr> out] @ tail"
      and k: "case out of
         Inl e \<Rightarrow> tail = [] \<and> res = Inl e
       | Inr signedTx \<Rightarrow>
           tail = [Fetch (url_settle w (tenantId_of req))
                    (Some (settle_body w req signedTx (js_get_opt resp ''signer_address'')))
                    (fetch w (url_settle w (tenantId_of req))
                       (Some (settle_body w req signedTx (js_get_opt resp ''signer_address''))))]
         \<and> res = bindE (fetch w (url_settle w (tenantId_of req))
                       (Some (settle_body w req signedTx (js_get_opt resp ''signer_address''))))
                   check_settlement"
    by (rule handlePayment_signed)
  from k have nodraft: "drafts tail = []" and nocall: "calls_to (url_payment_instruction w (tenantId_of req)) tail = []"
    by (cases out; simp add: drafts_simps calls_to_simps url_distinct)+
  from two tr nodraft have d: "d1 = \<lparr>recentBlockhash = bh, feePayer = sponsor,
               instructions = [transfer], signatures = []\<rparr>"
     "d2 = \<lparr>recentBlockhash = bh, feePayer = signer,
               instructions = [transfer, kora], signatures = [(wallet w, sg)]\<rparr>"
    by (simp_all add: drafts_simps)
  from koraInstruction_Inr[OF kora] obtain accounts where
    acc: "js_get_opt (js_get_opt resp ''payment_instruction'') ''accounts'' = JArr accounts"
         "list_all2 (\<lambda>a m. accountMeta w a = Inr m) accounts (keys kora)"
         "PublicKey w (js_get_opt (js_get_opt resp ''payment_instruction'') ''programAddress'')
            = Inr (programId kora)"
         "data kora = buf"
    by blast
  show ?thesis
    apply (rule exI[of _ payToKey], rule exI[of _ usdcMint], rule exI[of _ sender],
           rule exI[of _ recipient], rule exI[of _ transfer], rule exI[of _ kora],
           rule exI[of _ resp], rule exI[of _ accounts], rule exI[of _ sg])
    using f acc buf d tr nocall
    apply (simp add: calls_to_simps url_distinct)
    done
qed

theorem final_draft_instruction_order_witness:
  "\<exists>transfer.
      sample_createTransferInstruction ''ata-USDCMint-Wallet1'' ''ata-USDCMint-Addr1''
        ''Wallet1'' (Num 25000000) = Inr transfer
    \<and> map instructions
        (drafts (fst (handlePayment (sample_world sample_instruction sample_settled)
           (sample_requirements ''solana:5eykt4UsFv8P8NJdTREpY1vzqKqZKvdp'' ''25000000''))))
      = [[transfer],
         [transfer,
          \<lparr>keys = [\<lparr>pubkey = ''SponsorB'', isSigner = True, isWritable = True\<rparr>,
                   \<lparr>pubkey = ''Vault'', isSigner = False, isWritable = True\<rparr>,
                   \<lparr>pubkey = ''Wallet1'', isSigner = True, isWritable = False\<rparr>,
                   \<lparr>pubkey = ''Mint'', isSigner = False, isWritable = False\<rparr>],
            programId = ''KoraProgram'',
            data = [1, 2, 3]\<rparr>]]"
proof -
  let ?w = "sample_world sample_instruction sample_settled"
  let ?r = "sample_requirements ''solana:5eykt4UsFv8P8NJdTREpY1vzqKqZKvdp'' ''25000000''"
  let ?tr = "fst (handlePayment ?w ?r)"
  have two: "drafts ?tr = [drafts ?tr ! 0, drafts ?tr ! 1]"
    by (simp add: eval_defs)
  have run: "handlePayment ?w ?r = (?tr, snd (handlePayment ?w ?r))"
    by simp
  have call: "map snd (calls_to (url_payment_instruction ?w (tenantId_of ?r)) ?tr)
                = [Inr sample_instruction]"
    by (simp add: eval_defs)
  have addr: "PublicKey ?w (JStr (payTo ?r)) = Inr ''Addr1''"
    "PublicKey ?w (JStr (asset ?r)) = Inr ''USDCMint''"
    by (simp_all add: sample_defs)
  from final_draft_instruction_order[OF run two]
  obtain payToKey usdcMint sender recipient transfer kora resp accounts where
    t: "PublicKey ?w (JStr (payTo ?r)) = Inr payToKey"
       "PublicKey ?w (JStr (asset ?r)) = Inr usdcMint"
       "getAssociatedTokenAddress ?w usdcMint (wallet ?w) = Inr sender"
       "getAssociatedTokenAddress ?w usdcMint payToKey = Inr recipient"
       "createTransferInstruction ?w sender recipient (wallet ?w)
              (Number ?w (maxAmountRequired ?r)) = Inr transfer"
       "instructions (drafts ?tr ! 0) = [transfer]"
       "instructions (drafts ?tr ! 1) = [transfer, kora]"
    and resp: "map snd (calls_to (url_payment_instruction ?w (tenantId_of ?r)) ?tr) = [Inr resp]"
    and k: "js_get_opt (js_get_opt resp ''payment_instruction'') ''accounts'' = JArr accounts"
       "list_all2 (\<lambda>a m. accountMeta ?w a = Inr m) accounts (keys kora)"
       "PublicKey ?w (js_get_opt (js_get_opt resp ''payment_instruction'') ''programAddress'')
             = Inr (programId kora)"
       "bindE (js_get (js_get_opt resp ''payment_instruction'') ''data'') (dataBuffer ?w)
             = Inr (data kora)"
    by (elim exE conjE) (rule that)
  from resp call have r: "resp = sample_instruction"
    by simp
  from t(1,2) addr have a: "payToKey = ''Addr1''" "usdcMint = ''USDCMint''"
    by simp_all
  from t(3,4) a have s: "sender = ''ata-USDCMint-Wallet1''" "recipient = ''ata-USDCMint-Addr1''"
    by (simp_all add: sample_defs)
  from t(5) s have transfer:
    "sample_createTransferInstruction ''ata-USDCMint-Wallet1'' ''ata-USDCMint-Addr1''
        ''Wallet1'' (Num 25000000) = Inr transfer"
    by (simp add: sample_world_def sample_requirements_def sample_Number_def)
  from k(1) r have accounts: "accounts =
       [JObj [(''address'', JStr ''SponsorB''), (''role'', JNum 3)],
        JObj [(''address'', JStr ''Vault''), (''role'', JNum 1)],
        JObj [(''address'', JStr ''Wallet1''), (''role'', JNum 2)],
        JObj [(''address'', JStr ''Mint''), (''role'', JNum 0)]]"
    by (simp add: sample_instruction_def js_get_opt_def)
  from k(2) have keys: "keys kora =
       [\<lparr>pubkey = ''SponsorB'', isSigner = True, isWritable = True\<rparr>,
        \<lparr>pubkey = ''Vault'', isSigner = False, isWritable = True\<rparr>,
        \<lparr>pubkey = ''Wallet1'', isSigner = True, isWritable = False\<rparr>,
        \<lparr>pubkey = ''Mint'', isSigner = False, isWritable = False\<rparr>]"
    unfolding accounts
    by (auto simp: list_all2_Cons1 accountMeta_def bindE_def js_get_opt_def role_isSigner_def
          role_isWritable_def sample_world_def sample_PublicKey_def)
  from k(3) r have prog: "programId kora = ''KoraProgram''"
    by (simp add: sample_instruction_def js_get_opt_def sample_world_def sample_PublicKey_def)
  from k(4) r have dat: "data kora = [1, 2, 3]"
    by (simp add: eval_defs)
  from keys prog dat have kora: "kora =
       \<lparr>keys = [\<lparr>pubkey = ''SponsorB'', isSigner = True, isWritable = True\<rparr>,
                \<lparr>pubkey = ''Vault'', isSigner = False, isWritable = True\<rparr>,
                \<lparr>pubkey = ''Wallet1'', isSigner = True, isWritable = False\<rparr>,
                \<lparr>pubkey = ''Mint'', isSigner = False, isWritable = False\<rparr>],
        programId = ''KoraProgram'', data = [1, 2, 3]\<rparr>"
    by (cases kora) simp
  have "map instructions (drafts ?tr) = map instructions [drafts ?tr ! 0, drafts ?tr ! 1]"
    using two by (rule arg_cong)
  then have "map instructions (drafts ?tr)
               = [instructions (drafts ?tr ! 0), instructions (drafts ?tr ! 1)]"
    by (simp only: list.map)
  with t(6,7) kora transfer show ?thesis
    by (intro exI[of _ transfer]) simp
qed

text \<open>
  Claim C4, as amended.  When the address constructor rejects the recipient or the
  asset of the challenge, handlePayment fails with the constructor's error before
  anything else happens: no request is sent, no draft is built, nothing is signed or
  settled.
\<close>

theorem malformed_address_stops:
  assumes "PublicKey w (JStr (payTo req)) = Inl e
           \<or> (\<exists>k. PublicKey w (JStr (payTo req)) = Inr k \<and> PublicKey w (JStr (asset req)) = Inl e)"
  shows "handlePayment w req = ([], Inl e)"
  using assms by (auto simp: handlePayment_def andThen_lift)

theorem malformed_address_stops_witness:
  "handlePayment (sample_world sample_instruction sample_settled)
     ((sample_requirements ''solana:5eykt4UsFv8P8NJdTREpY1vzqKqZKvdp'' ''25000000'')
        \<lparr>payTo := ''not an address''\<rparr>)
   = ([], Inl (LibError ''Invalid public key input''))"
  using malformed_address_stops [of "sample_world sample_instruction sample_settled"
      "(sample_requirements ''solana:5eykt4UsFv8P8NJdTREpY1vzqKqZKvdp'' ''25000000'')
        \<lparr>payTo := ''not an address''\<rparr>" "LibError ''Invalid public key input''"]
  by (simp add: sample_world_def sample_requirements_def sample_PublicKey_def)

text \<open>
  Claim C4 as stated also promises a failure for a required amount that is not
  positive.  The function has no such check: the amount goes to the transfer
  instruction as it is.  With the amount \<open>0\<close> and libraries that accept it, both
  drafts are built, the instruction is requested and the payment is settled.
\<close>

theorem zero_amount_reaches_settlement:
  "Number (sample_world sample_instruction sample_settled)
     (maxAmountRequired (sample_requirements ''solana:5eykt4UsFv8P8NJdTREpY1vzqKqZKvdp'' ''0''))
     = Num 0
   \<and> snd (handlePayment (sample_world sample_instruction sample_settled)
            (sample_requirements ''solana:5eykt4UsFv8P8NJdTREpY1vzqKqZKvdp'' ''0''))
     = Inr (JStr ''TxSig1'')
   \<and> length (drafts (fst (handlePayment (sample_world sample_instruction sample_settled)
            (sample_requirements ''solana:5eykt4UsFv8P8NJdTREpY1vzqKqZKvdp'' ''0'')))) = 2
   \<and> length (calls_to ''https://relay/payment-instruction/unreel-ai''
        (fst (handlePayment (sample_world sample_instruction sample_settled)
            (sample_requirements ''solana:5eykt4UsFv8P8NJdTREpY1vzqKqZKvdp'' ''0'')))) = 1
   \<and> length (calls_to ''https://relay/settle/unreel-ai''
        (fst (handlePayment (sample_world sample_instruction sample_settled)
            (sample_requirements ''solana:5eykt4UsFv8P8NJdTREpY1vzqKqZKvdp'' ''0'')))) = 1"
  by (simp add: eval_defs)




text \<open>
  Claim C6, as amended.  When the answer to the settlement request has no success flag,
  or one that does not count as true (\<^verbatim>\<open>false\<close>, \<^verbatim>\<open>0\<close>, the empty string, \<^verbatim>\<open>null\<close>),
  handlePayment fails.  For an answer other than \<^verbatim>\<open>null\<close> the failure is the error
  \<^verbatim>\<open>Settlement failed: \<close> followed by the relay's reason: the message \<^verbatim>\<open>errorReason\<close>,
  else the message \<^verbatim>\<open>error\<close>, else the text \<^verbatim>\<open>Unknown error\<close>; for the answer \<^verbatim>\<open>null\<close>
  it is a \<^verbatim>\<open>TypeError\<close>.  A settlement answer whose success flag counts as true makes
  handlePayment return the \<^verbatim>\<open>transaction\<close> of that answer.  handlePayment returns a
  transaction identifier only after one settlement request whose answer has a success
  flag that counts as true (for a boolean flag: is true), and the identifier is the
  \<^verbatim>\<open>transaction\<close> of that answer.
\<close>

theorem settlement_failure_and_success:
  assumes run: "handlePayment w req = (tr, res)"
  shows "(\<forall>b settled.
            (b, Inr settled) \<in> set (calls_to (url_settle w (tenantId_of req)) tr)
            \<and> \<not> js_truthy (js_get_opt settled ''success'') \<longrightarrow>
              (\<exists>e. res = Inl e)
            \<and> (settled = JNull \<or> settled = JUndefined \<longrightarrow> res = Inl TypeError)
            \<and> (settled \<noteq> JNull \<and> settled \<noteq> JUndefined \<longrightarrow>
                 (\<exists>text. res = Inl (Error (''Settlement failed: '' @ text))))
            \<and> (\<forall>m. js_get_opt settled ''errorReason'' = JStr m \<and> m \<noteq> [] \<longrightarrow>
                 res = Inl (Error (''Settlement failed: '' @ m)))
            \<and> (\<forall>m. \<not> js_truthy (js_get_opt settled ''errorReason'')
                   \<and> js_get_opt settled ''error'' = JStr m \<and> m \<noteq> [] \<longrightarrow>
                 res = Inl (Error (''Settlement failed: '' @ m)))
            \<and> (settled \<noteq> JNull \<and> settled \<noteq> JUndefined
                 \<and> \<not> js_truthy (js_get_opt settled ''errorReason'')
                 \<and> \<not> js_truthy (js_get_opt settled ''error'') \<longrightarrow>
                 res = Inl (Error ''Settlement failed: Unknown error'')))
       \<and> (\<forall>b settled.
            (b, Inr settled) \<in> set (calls_to (url_settle w (tenantId_of req)) tr)
            \<and> js_truthy (js_get_opt settled ''success'') \<longrightarrow>
              res = Inr (js_get_opt settled ''transaction''))
       \<and> (\<forall>txid. res = Inr txid \<longrightarrow>
            (\<exists>b settled.
                calls_to (url_settle w (tenantId_of req)) tr = [(b, Inr settled)]
              \<and> js_truthy (js_get_opt settled ''success'')
              \<and> (\<forall>flag. js_get_opt settled ''success'' = JBool flag \<longrightarrow> flag)
              \<and> txid = js_get_opt settled ''transaction''))"
proof (cases "calls_to (url_settle w (tenantId_of req)) tr \<noteq> [] \<or> (\<exists>x. res = Inr x)")
  case False
  then show ?thesis by simp
next
  case True
  then have "2 \<le> length (drafts tr) \<or> calls_to (url_settle w (tenantId_of req)) tr \<noteq> []
         \<or> (\<exists>x. res = Inr x)"
    by blast
  with run obtain payToKey usdcMint si fpa sender recipient bh sponsor transfer baseTx resp
      signer buf kora sg out tail
    where tr: "tr = [Fetch (url_supported w (tenantId_of req)) None (Inr si),
             GetLatestBlockhash (Inr bh),
             Serialize \<lparr>recentBlockhash = bh, feePayer = sponsor,
               instructions = [transfer], signatures = []\<rparr> (Inr baseTx),
             Fetch (url_payment_instruction w (tenantId_of req))
               (Some (payment_instruction_body w req baseTx)) (Inr resp),
             Serialize \<lparr>recentBlockhash = bh, feePayer = signer,
               instructions = [transfer, kora], signatures = [(wallet w, sg)]\<rparr> out] @ tail"
      and k: "case out of
         Inl e \<Rightarrow> tail = [] \<and> res = Inl e
       | Inr signedTx \<Rightarrow>
           tail = [Fetch (url_settle w (tenantId_of req))
                    (Some (settle_body w req signedTx (js_get_opt resp ''signer_address'')))
                    (fetch w (url_settle w (tenantId_of req))
                       (Some (settle_body w req signedTx (js_get_opt resp ''signer_address''))))]
         \<and> res = bindE (fetch w (url_settle w (tenantId_of req))
                       (Some (settle_body w req signedTx (js_get_opt resp ''signer_address''))))
                   check_settlement"
    by (rule handlePayment_signed)
  from True tr k obtain signedTx where out: "out = Inr signedTx"
    by (cases out) (auto simp: calls_to_simps url_distinct)
  let ?b = "Some (settle_body w req signedTx (js_get_opt resp ''signer_address''))"
  let ?answer = "fetch w (url_settle w (tenantId_of req)) ?b"
  from k out tr have calls: "calls_to (url_settle w (tenantId_of req)) tr = [(?b, ?answer)]"
    and res: "res = bindE ?answer check_settlement"
    by (simp_all add: calls_to_simps url_distinct)
  have fail: "(\<exists>e. res = Inl e)
            \<and> (settled = JNull \<or> settled = JUndefined \<longrightarrow> res = Inl TypeError)
            \<and> (settled \<noteq> JNull \<and> settled \<noteq> JUndefined \<longrightarrow>
                 (\<exists>text. res = Inl (Error (''Settlement failed: '' @ text))))
            \<and> (\<forall>m. js_get_opt settled ''errorReason'' = JStr m \<and> m \<noteq> [] \<longrightarrow>
                 res = Inl (Error (''Settlement failed: '' @ m)))
            \<and> (\<forall>m. \<not> js_truthy (js_get_opt settled ''errorReason'')
                   \<and> js_get_opt settled ''error'' = JStr m \<and> m \<noteq> [] \<longrightarrow>
                 res = Inl (Error (''Settlement failed: '' @ m)))
            \<and> (settled \<noteq> JNull \<and> settled \<noteq> JUndefined
                 \<and> \<not> js_truthy (js_get_opt settled ''errorReason'')
                 \<and> \<not> js_truthy (js_get_opt settled ''error'') \<longrightarrow>
                 res = Inl (Error ''Settlement failed: Unknown error''))"
    if "(b, Inr settled) \<in> set (calls_to (url_settle w (tenantId_of req)) tr)"
      and "\<not> js_truthy (js_get_opt settled ''success'')" for b settled
  proof -
    from that(1) calls have a: "?answer = Inr settled" by simp
    from res a check_settlement_refused[OF that(2)]
    have r: "res = (if settled = JNull \<or> settled = JUndefined then Inl TypeError
            else Inl (Error (''Settlement failed: '' @
                   js_toString (js_or (js_get_opt settled ''errorReason'')
                                 (js_or (js_get_opt settled ''error'') (JStr ''Unknown error''))))))"
      by (simp add: bindE_def)
    have n: "js_get_opt settled f = JStr m \<Longrightarrow> settled \<noteq> JNull \<and> settled \<noteq> JUndefined" for f m
      by (auto simp: js_get_opt_def)
    from r have 1: "\<exists>e. res = Inl e"
      by simp
    from r have 2: "settled = JNull \<or> settled = JUndefined \<longrightarrow> res = Inl TypeError"
      by simp
    from r have 3: "settled \<noteq> JNull \<and> settled \<noteq> JUndefined \<longrightarrow>
                 (\<exists>text. res = Inl (Error (''Settlement failed: '' @ text)))"
      by simp
    from r n[of "''errorReason''"] have 4:
      "\<forall>m. js_get_opt settled ''errorReason'' = JStr m \<and> m \<noteq> [] \<longrightarrow>
                 res = Inl (Error (''Settlement failed: '' @ m))"
      by (simp add: js_or_def)
    from r n[of "''error''"] have 5:
      "\<forall>m. \<not> js_truthy (js_get_opt settled ''errorReason'')
                   \<and> js_get_opt settled ''error'' = JStr m \<and> m \<noteq> [] \<longrightarrow>
                 res = Inl (Error (''Settlement failed: '' @ m))"
      by (simp add: js_or_def)
    from r have 6: "settled \<noteq> JNull \<and> settled \<noteq> JUndefined
                 \<and> \<not> js_truthy (js_get_opt settled ''errorReason'')
                 \<and> \<not> js_truthy (js_get_opt settled ''error'') \<longrightarrow>
                 res = Inl (Error ''Settlement failed: Unknown error'')"
      by (simp add: js_or_def)
    from 1 2 3 4 5 6 show ?thesis
      by (intro conjI)
  qed
  have paid: "res = Inr (js_get_opt settled ''transaction'')"
    if "(b, Inr settled) \<in> set (calls_to (url_settle w (tenantId_of req)) tr)"
      and "js_truthy (js_get_opt settled ''success'')" for b settled
  proof -
    from that(1) calls have a: "?answer = Inr settled" by simp
    from that(2) have "check_settlement settled = Inr (js_get_opt settled ''transaction'')"
      by (cases settled) (simp_all add: check_settlement_def bindE_def js_get_opt_def)
    with res a show ?thesis
      by (simp add: bindE_def)
  qed
  have ok: "\<exists>b settled.
                calls_to (url_settle w (tenantId_of req)) tr = [(b, Inr settled)]
              \<and> js_truthy (js_get_opt settled ''success'')
              \<and> (\<forall>flag. js_get_opt settled ''success'' = JBool flag \<longrightarrow> flag)
              \<and> txid = js_get_opt settled ''transaction''"
    if "res = Inr txid" for txid
  proof -
    from that res obtain settled where a: "?answer = Inr settled"
      and c: "check_settlement settled = Inr txid"
      by (auto simp: bindE_def split: sum.splits)
    from check_settlement_Inr[OF c] calls a show ?thesis
      by auto
  qed
  from fail paid ok show ?thesis by blast
qed

theorem settlement_failure_and_success_witness:
  "snd (handlePayment (sample_world sample_instruction sample_unsettled)
          (sample_requirements ''solana:5eykt4UsFv8P8NJdTREpY1vzqKqZKvdp'' ''25000000''))
     = Inl (Error ''Settlement failed: blockhash expired'')
   \<and> snd (handlePayment (sample_world sample_instruction (JObj []))
          (sample_requirements ''solana:5eykt4UsFv8P8NJdTREpY1vzqKqZKvdp'' ''25000000''))
     = Inl (Error ''Settlement failed: Unknown error'')
   \<and> snd (handlePayment (sample_world sample_instruction sample_settled)
          (sample_requirements ''solana:5eykt4UsFv8P8NJdTREpY1vzqKqZKvdp'' ''25000000''))
     = Inr (JStr ''TxSig1'')
   \<and> (\<exists>b settled.
         calls_to ''https://relay/settle/unreel-ai''
           (fst (handlePayment (sample_world sample_instruction sample_settled)
              (sample_requirements ''solana:5eykt4UsFv8P8NJdTREpY1vzqKqZKvdp'' ''25000000'')))
           = [(b, Inr settled)]
       \<and> js_truthy (js_get_opt settled ''success'')
       \<and> JStr ''TxSig1'' = js_get_opt settled ''transaction'')"
proof -
  let ?r = "sample_requirements ''solana:5eykt4UsFv8P8NJdTREpY1vzqKqZKvdp'' ''25000000''"
  let ?b = "Some (settle_body (sample_world sample_instruction sample_settled) ?r
                    ''tx-SponsorB'' (JStr ''SponsorB''))"
  have u: "url_settle (sample_world i s) (tenantId_of ?r) = ''https://relay/settle/unreel-ai''" for i s
    by (simp add: url_settle_def tenantId_of_def sample_world_def sample_requirements_def)
  have b: "settle_body (sample_world i s) ?r = settle_body (sample_world sample_instruction sample_settled) ?r" for i s
    by (simp add: settle_body_def sample_world_def fun_eq_iff)
  have c: "calls_to ''https://relay/settle/unreel-ai''
             (fst (handlePayment (sample_world sample_instruction s) ?r)) = [(?b, Inr s)]" for s
    by (simp add: eval_defs)
  have run: "handlePayment (sample_world sample_instruction s) ?r
         = (fst (handlePayment (sample_world sample_instruction s) ?r),
            snd (handlePayment (sample_world sample_instruction s) ?r))" for s
    by simp
  note t = settlement_failure_and_success[OF run, unfolded u c]
  have 1: "snd (handlePayment (sample_world sample_instruction sample_unsettled) ?r)
             = Inl (Error ''Settlement failed: blockhash expired'')"
    using t[of sample_unsettled, THEN conjunct1, rule_format, of ?b sample_unsettled]
    by (simp add: sample_unsettled_def js_get_opt_def)
  have 2: "snd (handlePayment (sample_world sample_instruction (JObj [])) ?r)
             = Inl (Error ''Settlement failed: Unknown error'')"
    using t[of "JObj []", THEN conjunct1, rule_format, of ?b "JObj []"]
    by (simp add: js_get_opt_def)
  have 3: "snd (handlePayment (sample_world sample_instruction sample_settled) ?r)
             = Inr (JStr ''TxSig1'')"
    using t[of sample_settled, THEN conjunct2, THEN conjunct1, rule_format, of ?b sample_settled]
    by (simp add: sample_settled_def js_get_opt_def)
  have 4: "\<exists>b settled. [(?b, Inr sample_settled)] = [(b, Inr settled)]
       \<and> js_truthy (js_get_opt settled ''success'')
       \<and> JStr ''TxSig1'' = js_get_opt settled ''transaction''"
    using t[of sample_settled, THEN conjunct2, THEN conjunct2, rule_format, of "JStr ''TxSig1''"] 3
    by blast
  from 1 2 3 4 show ?thesis unfolding c by blast
qed

text \<open>
  Claim C6 as stated fails on three answers.  One whose success flag is the string
  \<^verbatim>\<open>false\<close>, which is not the flag \<^verbatim>\<open>true\<close>, is reported as paid: handlePayment
  returns its transaction identifier.  One with no success flag and no reason fails
  with the reason \<^verbatim>\<open>Unknown error\<close>, not \<^verbatim>\<open>unknown\<close>.  And the answer \<^verbatim>\<open>null\<close>, which
  has no success flag, fails with a \<^verbatim>\<open>TypeError\<close> in place of the settlement error.
\<close>

theorem string_success_flag_is_reported_paid:
  "js_get sample_string_flag ''success'' = Inr (JStr ''false'')
   \<and> snd (handlePayment (sample_world sample_instruction sample_string_flag)
          (sample_requirements ''solana:5eykt4UsFv8P8NJdTREpY1vzqKqZKvdp'' ''25000000''))
     = Inr (JStr ''TxSig2'')
   \<and> snd (handlePayment (sample_world sample_instruction (JObj []))
          (sample_requirements ''solana:5eykt4UsFv8P8NJdTREpY1vzqKqZKvdp'' ''25000000''))
     = Inl (Error ''Settlement failed: Unknown error'')
   \<and> snd (handlePayment (sample_world sample_instruction JNull)
          (sample_requirements ''solana:5eykt4UsFv8P8NJdTREpY1vzqKqZKvdp'' ''25000000''))
     = Inl TypeError"
  by (simp add: eval_defs sample_string_flag_def)

text \<open>
  Claim C7, as amended.  Every settlement request carries a body whose payment payload
  holds the serialised signed final draft under the scheme \<^verbatim>\<open>exact\<close>; whose
  requirements repeat the amount, the recipient and the asset of the challenge; whose
  \<^verbatim>\<open>extra.feePayer\<close> is the \<^verbatim>\<open>signer_address\<close> returned by the relay, which is
  also the fee payer of the draft; and whose network, in both parts, is the fixed
  identifier \<^verbatim>\<open>solana:5eykt4UsFv8P8NJdTREpY1vzqKqZKvdp\<close>.
\<close>

theorem settle_request_envelope:
  assumes run: "handlePayment w req = (tr, res)"
    and called: "(b, r) \<in> set (calls_to (url_settle w (tenantId_of req)) tr)"
  shows "\<exists>body resp d1 d2 signedTx.
           b = Some body
         \<and> map snd (calls_to (url_payment_instruction w (tenantId_of req)) tr) = [Inr resp]
         \<and> drafts tr = [d1, d2]
         \<and> serialize w True d2 = Inr signedTx
         \<and> PublicKey w (js_get_opt resp ''signer_address'') = Inr (feePayer d2)
         \<and> js_path body [''paymentPayload'', ''payload'', ''transaction''] = JStr signedTx
         \<and> js_path body [''paymentPayload'', ''scheme''] = JStr ''exact''
         \<and> js_path body [''paymentPayload'', ''network'']
             = JStr ''solana:5eykt4UsFv8P8NJdTREpY1vzqKqZKvdp''
         \<and> js_path body [''paymentRequirements'', ''scheme''] = JStr ''exact''
         \<and> js_path body [''paymentRequirements'', ''network'']
             = JStr ''solana:5eykt4UsFv8P8NJdTREpY1vzqKqZKvdp''
         \<and> js_path body [''paymentRequirements'', ''maxAmountRequired'']
             = JStr (maxAmountRequired req)
         \<and> js_path body [''paymentRequirements'', ''payTo''] = JStr (payTo req)
         \<and> js_path body [''paymentRequirements'', ''asset''] = JStr (asset req)
         \<and> js_path body [''paymentRequirements'', ''extra'', ''feePayer'']
             = js_get_opt resp ''signer_address''"
proof -
  from called have "2 \<le> length (drafts tr) \<or> calls_to (url_settle w (tenantId_of req)) tr \<noteq> []
         \<or> (\<exists>x. res = Inr x)"
    by auto
  with run obtain payToKey usdcMint si fpa sender recipient bh sponsor transfer baseTx resp
      signer buf kora sg out tail
    where signer: "PublicKey w (js_get_opt resp ''signer_address'') = Inr signer"
      and ser: "serialize w True \<lparr>recentBlockhash = bh, feePayer = signer,
         instructions = [transfer, kora], signatures = [(wallet w, sg)]\<rparr> = out"
      and tr: "tr = [Fetch (url_supported w (tenantId_of req)) None (Inr si),
             GetLatestBlockhash (Inr bh),
             Serialize \<lparr>recentBlockhash = bh, feePayer = sponsor,
               instructions = [transfer], signatures = []\<rparr> (Inr baseTx),
             Fetch (url_payment_instruction w (tenantId_of req))
               (Some (payment_instruction_body w req baseTx)) (Inr resp),
             Serialize \<lparr>recentBlockhash = bh, feePayer = signer,
               instructions = [transfer, kora], signatures = [(wallet w, sg)]\<rparr> out] @ tail"
      and k: "case out of
         Inl e \<Rightarrow> tail = [] \<and> res = Inl e
       | Inr signedTx \<Rightarrow>
           tail = [Fetch (url_settle w (tenantId_of req))
                    (Some (settle_body w req signedTx (js_get_opt resp ''signer_address'')))
                    (fetch w (url_settle w (tenantId_of req))
                       (Some (settle_body w req signedTx (js_get_opt resp ''signer_address''))))]
         \<and> res = bindE (fetch w (url_settle w (tenantId_of req))
                       (Some (settle_body w req signedTx (js_get_opt resp ''signer_address''))))
                   check_settlement"
    by (rule handlePayment_signed)
  from called tr k obtain signedTx where out: "out = Inr signedTx"
    by (cases out) (auto simp: calls_to_simps url_distinct)
  from k out have tail: "tail = [Fetch (url_settle w (tenantId_of req))
                    (Some (settle_body w req signedTx (js_get_opt resp ''signer_address'')))
                    (fetch w (url_settle w (tenantId_of req))
                       (Some (settle_body w req signedTx (js_get_opt resp ''signer_address''))))]"
    by simp
  from called tr tail have b: "b = Some (settle_body w req signedTx (js_get_opt resp ''signer_address''))"
    by (simp add: calls_to_simps url_distinct)
  show ?thesis
    apply (rule exI[of _ "settle_body w req signedTx (js_get_opt resp ''signer_address'')"],
           rule exI[of _ resp],
           rule exI[of _ "\<lparr>recentBlockhash = bh, feePayer = sponsor,
               instructions = [transfer], signatures = []\<rparr>"],
           rule exI[of _ "\<lparr>recentBlockhash = bh, feePayer = signer,
               instructions = [transfer, kora], signatures = [(wallet w, sg)]\<rparr>"],
           rule exI[of _ signedTx])
    using b tr tail signer ser out
    apply (simp add: calls_to_simps drafts_simps url_distinct settle_body_def js_get_opt_def)
    done
qed

theorem settle_request_envelope_witness:
  "\<exists>body. calls_to ''https://relay/settle/unreel-ai''
             (fst (handlePayment (sample_world sample_instruction sample_settled)
                (sample_requirements ''solana:5eykt4UsFv8P8NJdTREpY1vzqKqZKvdp'' ''25000000'')))
             = [(Some body, Inr sample_settled)]
         \<and> js_path body [''paymentPayload'', ''network'']
             = JStr ''solana:5eykt4UsFv8P8NJdTREpY1vzqKqZKvdp''
         \<and> js_path body [''paymentRequirements'', ''maxAmountRequired''] = JStr ''25000000''
         \<and> js_path body [''paymentRequirements'', ''payTo''] = JStr ''Addr1''
         \<and> js_path body [''paymentRequirements'', ''asset''] = JStr ''USDCMint''
         \<and> js_path body [''paymentRequirements'', ''extra'', ''feePayer''] = JStr ''SponsorB''"
proof -
  let ?w = "sample_world sample_instruction sample_settled"
  let ?r = "sample_requirements ''solana:5eykt4UsFv8P8NJdTREpY1vzqKqZKvdp'' ''25000000''"
  let ?tr = "fst (handlePayment ?w ?r)"
  let ?b = "Some (settle_body ?w ?r ''tx-SponsorB'' (JStr ''SponsorB''))"
  have run: "handlePayment ?w ?r = (?tr, snd (handlePayment ?w ?r))"
    by simp
  have u: "url_settle ?w (tenantId_of ?r) = ''https://relay/settle/unreel-ai''"
    by (simp add: url_settle_def tenantId_of_def sample_world_def sample_requirements_def)
  have c: "calls_to ''https://relay/settle/unreel-ai'' ?tr = [(?b, Inr sample_settled)]"
    by (simp add: eval_defs)
  have i: "map snd (calls_to (url_payment_instruction ?w (tenantId_of ?r)) ?tr)
             = [Inr sample_instruction]"
    by (simp add: eval_defs)
  have called: "(?b, Inr sample_settled) \<in> set (calls_to (url_settle ?w (tenantId_of ?r)) ?tr)"
    unfolding u c by simp
  from settle_request_envelope[OF run called] i c show ?thesis
    by (auto simp: sample_instruction_def sample_requirements_def js_get_opt_def)
qed

text \<open>
  Claim C7 as stated says that the network of the envelope is the network of the
  challenge.  The network is a constant of the function: for a challenge on
  \<^verbatim>\<open>solana-devnet\<close> the settlement request still names the main network.
\<close>

theorem settle_network_ignores_challenge:
  "network (sample_requirements ''solana-devnet'' ''25000000'') = ''solana-devnet''
   \<and> calls_to ''https://relay/settle/unreel-ai''
        (fst (handlePayment (sample_world sample_instruction sample_settled)
           (sample_requirements ''solana-devnet'' ''25000000'')))
      = [(Some (settle_body (sample_world sample_instruction sample_settled)
                 (sample_requirements ''solana-devnet'' ''25000000'')
                 ''tx-SponsorB'' (JStr ''SponsorB'')),
          Inr sample_settled)]
   \<and> js_path (settle_body (sample_world sample_instruction sample_settled)
                 (sample_requirements ''solana-devnet'' ''25000000'')
                 ''tx-SponsorB'' (JStr ''SponsorB''))
        [''paymentPayload'', ''network'']
      = JStr ''solana:5eykt4UsFv8P8NJdTREpY1vzqKqZKvdp''
   \<and> js_path (settle_body (sample_world sample_instruction sample_settled)
                 (sample_requirements ''solana-devnet'' ''25000000'')
                 ''tx-SponsorB'' (JStr ''SponsorB''))
        [''paymentRequirements'', ''network'']
      \<noteq> JStr (network (sample_requirements ''solana-devnet'' ''25000000''))"
  by (simp add: eval_defs)

section \<open>The claims about the relay instruction\<close>

text \<open>
  Claim C3.  For an account reference of the relay instruction whose address the
  library accepts, the role decides the two flags, and every role from 0 to 3 has its
  pair: role 0 gives (isSigner, isWritable) = (false, false), role 1 gives
  (false, true), role 2 gives (true, false), role 3 gives (true, true).
\<close>

theorem role_flags_total:
  assumes "js_get account ''address'' = Inr address"
    and "PublicKey w address = Inr pk"
    and "js_get_opt account ''role'' = JNum r"
    and "r \<in> {0, 1, 2, 3}"
  shows "\<exists>m. accountMeta w account = Inr m \<and> pubkey m = pk
           \<and> (isSigner m, isWritable m) =
               (if r = 0 then (False, False)
                else if r = 1 then (False, True)
                else if r = 2 then (True, False)
                else (True, True))"
  using assms
  by (auto simp: accountMeta_def bindE_def role_isSigner_def role_isWritable_def)

theorem role_flags_total_witness:
  "(\<exists>m. accountMeta (sample_world sample_instruction sample_settled)
          (JObj [(''address'', JStr ''Mint''), (''role'', JNum 0)]) = Inr m
        \<and> pubkey m = ''Mint'' \<and> (isSigner m, isWritable m) = (False, False))
 \<and> (\<exists>m. accountMeta (sample_world sample_instruction sample_settled)
          (JObj [(''address'', JStr ''Vault''), (''role'', JNum 1)]) = Inr m
        \<and> pubkey m = ''Vault'' \<and> (isSigner m, isWritable m) = (False, True))
 \<and> (\<exists>m. accountMeta (sample_world sample_instruction sample_settled)
          (JObj [(''address'', JStr ''Wallet1''), (''role'', JNum 2)]) = Inr m
        \<and> pubkey m = ''Wallet1'' \<and> (isSigner m, isWritable m) = (True, False))
 \<and> (\<exists>m. accountMeta (sample_world sample_instruction sample_settled)
          (JObj [(''address'', JStr ''SponsorB''), (''role'', JNum 3)]) = Inr m
        \<and> pubkey m = ''SponsorB'' \<and> (isSigner m, isWritable m) = (True, True))"
  using
    role_flags_total [of "JObj [(''address'', JStr ''Mint''), (''role'', JNum 0)]"
      "JStr ''Mint''" "sample_world sample_instruction sample_settled" "''Mint''" 0]
    role_flags_total [of "JObj [(''address'', JStr ''Vault''), (''role'', JNum 1)]"
      "JStr ''Vault''" "sample_world sample_instruction sample_settled" "''Vault''" 1]
    role_flags_total [of "JObj [(''address'', JStr ''Wallet1''), (''role'', JNum 2)]"
      "JStr ''Wallet1''" "sample_world sample_instruction sample_settled" "''Wallet1''" 2]
    role_flags_total [of "JObj [(''address'', JStr ''SponsorB''), (''role'', JNum 3)]"
      "JStr ''SponsorB''" "sample_world sample_instruction sample_settled" "''SponsorB''" 3]
  by (simp add: sample_world_def sample_PublicKey_def js_get_opt_def)

text \<open>How \<^verbatim>\<open>paymentInstruction.data\<close> becomes bytes where it does: an array gives its
  elements (a number from 0 to 255 gives itself), an object whose \<^verbatim>\<open>data\<close> is an array
  gives the elements of that array, an object whose \<^verbatim>\<open>data\<close> is absent or counts as
  false gives its values, and \<^verbatim>\<open>undefined\<close>, a boolean, a number and a string give
  no bytes.\<close>

lemma dataBuffer_array: "dataBuffer w (JArr xs) = Inr (map (ToUint8 w) xs)"
  by (simp add: dataBuffer_def Array_isArray_def)

lemma ToUint8_byte: "0 \<le> n \<Longrightarrow> n < 256 \<Longrightarrow> uint (ToUint8 w (JNum n)) = n"
  by (simp add: ToUint8_def uint_word_of_int)

lemma dataBuffer_wrapped:
  "map_of kvs ''data'' = Some (JArr xs) \<Longrightarrow> dataBuffer w (JObj kvs) = Inr (map (ToUint8 w) xs)"
  by (simp add: dataBuffer_def Array_isArray_def js_get_opt_def)

lemma dataBuffer_keyed:
  "\<not> js_truthy (js_get_opt (JObj kvs) ''data'') \<Longrightarrow>
     dataBuffer w (JObj kvs) = Inr (map (ToUint8 w) (map snd kvs))"
  by (simp add: dataBuffer_def Array_isArray_def typeof_object_def bindE_def)

lemma dataBuffer_other:
  "dataBuffer w JUndefined = Inr []" "dataBuffer w (JBool b) = Inr []"
  "dataBuffer w (JNum n) = Inr []" "dataBuffer w (JStr s) = Inr []"
  by (simp_all add: dataBuffer_def Array_isArray_def typeof_object_def js_get_opt_def)

text \<open>
  Claim C10.  The claim says that the normalisation never raises an error.  It does:
  on an object whose \<^verbatim>\<open>data\<close> property is a number other than 0, or \<^verbatim>\<open>true\<close>, the
  second branch calls \<^verbatim>\<open>Buffer.from\<close> on that number or boolean; on \<^verbatim>\<open>null\<close> the
  third branch is taken, since \<^verbatim>\<open>typeof null\<close> is \<^verbatim>\<open>"object"\<close>, and calls
  \<^verbatim>\<open>Object.values(null)\<close>.  Both are a \<^verbatim>\<open>TypeError\<close>.
\<close>

theorem dataBuffer_raises_TypeError:
  "dataBuffer w (JObj [(''data'', JNum 5)]) = Inl TypeError
   \<and> dataBuffer w (JObj [(''data'', JBool True)]) = Inl TypeError
   \<and> dataBuffer w JNull = Inl TypeError"
  by (simp add: dataBuffer_def Array_isArray_def typeof_object_def js_get_opt_def bindE_def)

section \<open>The claims about pollJobStatus\<close>

text \<open>
  Claim C8.  The first delay slept by the poller is \<open>initialDelay\<close>; each next one is
  the product of the last one and 1.2, capped at 30000, and so never exceeds 30000.
  With the exact product the delay after \<open>k > 0\<close> attempts is the smaller of
  \<open>initialDelay * 1.2 ^ k\<close> and 30000.  With \<open>initialDelay = 5000\<close>, and with any
  product that on the delays from 5000 to 30000 is off by at most a thousandth of the
  delay (the exact one, and the one of doubles), the delay is below 30000 after fewer
  than 10 attempts and is 30000 after 10 attempts and after every later one.
\<close>

theorem poll_delay_backoff:
  assumes run: "pollJobStatus fmul srv jobId maxAttempts initialDelay = (sleeps, r)"
    and k: "k < length sleeps"
  shows "sleeps ! 0 = initialDelay
       \<and> (k + 1 < length sleeps \<longrightarrow>
            sleeps ! (k + 1) = min (fmul (sleeps ! k) 1.2) 30000 \<and> sleeps ! (k + 1) \<le> 30000)
       \<and> (fmul = exact_product \<longrightarrow>
            sleeps ! k = (if k = 0 then initialDelay else min (initialDelay * 1.2 ^ k) 30000))
       \<and> (initialDelay = 5000
            \<and> (\<forall>x. 5000 \<le> x \<and> x \<le> 30000 \<longrightarrow> \<bar>fmul x 1.2 - x * 1.2\<bar> \<le> x / 1000) \<longrightarrow>
            (k < 10 \<longrightarrow> sleeps ! k < 30000) \<and> (10 \<le> k \<longrightarrow> sleeps ! k = 30000))"
proof -
  let ?f = "\<lambda>x. min (fmul x 1.2) 30000"
  from run have loop: "pollJobStatus_loop fmul srv maxAttempts 0 initialDelay = (sleeps, r)"
    by (simp add: pollJobStatus_def)
  have nth: "sleeps ! i = (?f ^^ i) initialDelay" if "i < length sleeps" for i
    using pollJobStatus_loop_sleeps[OF loop that] .
  from k have "0 < length sleeps" by arith
  from nth[OF this] have first: "sleeps ! 0 = initialDelay"
    by simp
  have step: "sleeps ! (k + 1) = min (fmul (sleeps ! k) 1.2) 30000 \<and> sleeps ! (k + 1) \<le> 30000"
    if "k + 1 < length sleeps"
    using nth[OF that] nth[OF k] by simp
  have closed: "sleeps ! k = (if k = 0 then initialDelay else min (initialDelay * 1.2 ^ k) 30000)"
    if "fmul = exact_product"
  proof -
    from that have "?f = (\<lambda>x. min (x * 1.2) 30000)"
      by (simp add: exact_product_def)
    with nth[OF k] show ?thesis
      by (simp only: backoff_closed)
  qed
  have five: "(k < 10 \<longrightarrow> sleeps ! k < 30000) \<and> (10 \<le> k \<longrightarrow> sleeps ! k = 30000)"
    if d: "initialDelay = 5000"
      and rounding: "\<forall>x. 5000 \<le> x \<and> x \<le> 30000 \<longrightarrow> \<bar>fmul x 1.2 - x * 1.2\<bar> \<le> x / 1000"
  proof -
    from rounding have b:
      "(k < 10 \<longrightarrow> 5000 * 1.199 ^ k \<le> (?f ^^ k) 5000 \<and> (?f ^^ k) 5000 \<le> 5000 * 1.201 ^ k)
       \<and> (10 \<le> k \<longrightarrow> (?f ^^ k) 5000 = 30000)"
      by (rule backoff_from_5000[of fmul k])
    have "sleeps ! k < 30000" if small: "k < 10"
    proof -
      from small have "(1.201::real) ^ k \<le> 1.201 ^ 9"
        by (intro power_increasing) simp_all
      also have "(1.201::real) ^ 9 < 6"
        by (simp add: power_divide)
      finally have "5000 * (1.201::real) ^ k < 30000"
        by simp
      with b small nth[OF k] d show ?thesis
        by simp
    qed
    moreover have "sleeps ! k = 30000" if "10 \<le> k"
      using b that nth[OF k] d by simp
    ultimately show ?thesis by blast
  qed
  from first step closed five show ?thesis by blast
qed

theorem poll_delay_backoff_witness:
  "length (fst (pollJobStatus exact_product sample_pending ''job-1'' 12 5000)) = 12
   \<and> fst (pollJobStatus exact_product sample_pending ''job-1'' 12 5000) ! 0 = 5000
   \<and> fst (pollJobStatus exact_product sample_pending ''job-1'' 12 5000) ! 1 = 6000
   \<and> fst (pollJobStatus exact_product sample_pending ''job-1'' 12 5000) ! 9 < 30000
   \<and> fst (pollJobStatus exact_product sample_pending ''job-1'' 12 5000) ! 10 = 30000
   \<and> fst (pollJobStatus exact_product sample_pending ''job-1'' 12 5000) ! 11 = 30000"
proof -
  let ?run = "pollJobStatus exact_product sample_pending ''job-1'' 12 5000"
  have run: "?run = (fst ?run, snd ?run)" by simp
  have len: "length (fst ?run) = 12" by (simp add: sample_pending_sleeps)
  have exact: "\<forall>x. 5000 \<le> x \<and> x \<le> 30000 \<longrightarrow> \<bar>exact_product x 1.2 - x * 1.2\<bar> \<le> x / 1000"
    by (simp add: exact_product_def)
  from poll_delay_backoff[OF run, of 0] poll_delay_backoff[OF run, of 1]
    poll_delay_backoff[OF run, of 9] poll_delay_backoff[OF run, of 10]
    poll_delay_backoff[OF run, of 11] len exact
  show ?thesis by simp
qed

text \<open>
  Claim C9.  The poller of the axios client does all that the claim says (see the
  facts about the pollers above).  The poller of \<^verbatim>\<open>src/index.ts\<close> does not look
  at the HTTP status: a 404 answer with a JSON body is one more pending observation,
  and the poller ends with the time-out error when the attempts are used up; a 404
  answer with a text body ends it with the error of \<^verbatim>\<open>res.json()\<close>.  In neither
  case is the missing job reported as such, as the axios client's poller does.
\<close>

theorem missing_job_is_not_reported:
  "pollJobStatus exact_product sample_missing ''job-1'' 3 5000
     = ([5000, 6000, 7200], Inl (Error ''Job timed out after 3 attempts''))
   \<and> pollJobStatus exact_product sample_missing_text ''job-1'' 3 5000 = ([], Inl (LibError ''SyntaxError''))
   \<and> pollJobStatus_axios exact_product sample_missing ''job-1'' 3 5000
     = ([], Inl (Error ''Job not found: job-1''))
   \<and> pollJobStatus_axios exact_product sample_missing_text ''job-1'' 3 5000
     = ([], Inl (Error ''Job not found: job-1''))"
  by (simp add: pollJobStatus_def pollJobStatus_axios_def pollJobStatus_loop.simps
        pollJobStatus_axios_loop.simps sample_missing_def sample_missing_text_def
        res_json_def axios_data_def bindE_def poll_catch_def Number_toString_3 exact_product_def)

end
